theory Spec2Isabelle
  imports Complex_Main
begin

section \<open>The hierarchical store\<close>

text \<open>
  The writer of \<^verbatim>\<open>nsdfwriter.py\<close> keeps all its data in one HDF5 file. The file is
  modelled as a finite map from absolute paths to nodes; a node is a group or a dataset,
  and both carry attributes. A path is the list of its components, so
  \<^verbatim>\<open>/data/uniform/pop/Vm\<close> is \<open>[''data'', ''uniform'', ''pop'', ''Vm'']\<close>; names given by
  the caller are taken to be single components (no \<^verbatim>\<open>/\<close> inside a name).

  A floating point cell is either the not-a-number sentinel or a number; nothing in the
  writer computes with the numbers, it only tests cells with \<^verbatim>\<open>np.isnan\<close>.
\<close>

type_synonym path = "string list"

datatype sample = NaN | Val real

datatype dialect = ONED | NUREGULAR | VLEN | NANPADDED

text \<open>
  The exceptions the writer raises or lets through, one constructor per \<^verbatim>\<open>raise\<close> of the
  source and per failure of the storage library:
  \<^item> \<open>KeyError_sources\<close>: \<^verbatim>\<open>KeyError('members of `source_ds` must match ...')\<close>;
  \<^item> \<open>KeyError_missing p\<close>: the storage library finds no object at \<open>p\<close>;
  \<^item> \<open>KeyError_source s\<close>: a dictionary has no entry for the source id \<open>s\<close>;
  \<^item> \<open>ValueError_idlist\<close>: \<^verbatim>\<open>ValueError('idlist must be nonempty')\<close>;
  \<^item> \<open>ValueError_dt\<close>, \<open>ValueError_unit\<close>, \<open>ValueError_tunit\<close>: the three
    \<^verbatim>\<open>ValueError('... for creating dataset.')\<close>;
  \<^item> \<open>ValueError_times\<close>: \<^verbatim>\<open>ValueError('number sampling times must be same ...')\<close>;
  \<^item> \<open>ValueError_numpy\<close>: \<^verbatim>\<open>np.vstack\<close> of rows of unequal length or of no row,
    \<^verbatim>\<open>max\<close> of an empty sequence;
  \<^item> \<open>AssertionError\<close>: a failed \<^verbatim>\<open>assert\<close>;
  \<^item> \<open>DialectException\<close>: \<^verbatim>\<open>Exception('add 2D vlen dataset ... only for dialect=VLEN')\<close>;
  \<^item> \<open>H5_exists p\<close>: creating an object under a name that is taken;
  \<^item> \<open>H5_resize\<close>: resizing a dataset that is not resizable, or beyond its maximal shape;
  \<^item> \<open>H5_type\<close>: an object of the wrong kind or shape for the operation, or an index
    out of its range;
  \<^item> \<open>H5_noname\<close>: opening an object under the empty name.
\<close>

datatype error =
    KeyError_sources
  | KeyError_missing path
  | KeyError_source string
  | ValueError_idlist
  | ValueError_dt
  | ValueError_unit
  | ValueError_tunit
  | ValueError_times
  | ValueError_numpy
  | AssertionError
  | DialectException
  | H5_exists path
  | H5_resize
  | H5_type
  | H5_noname

datatype attr = AStr string | ANum real | ARef path | ARefs "path list"

text \<open>
  The contents of a dataset, by its HDF5 type: a 1-D array of strings (source ids), the
  compound \<^verbatim>\<open>SRCDATAMAPTYPE\<close> (source id, reference to the source's dataset or null),
  a 1-D or 2-D array of floats (a 2-D array is the list of its rows), and a 1-D array
  of variable-length float arrays.
\<close>

datatype content =
    Strs "string list"
  | SrcData "(string \<times> path option) list"
  | Arr1 "sample list"
  | Arr2 "sample list list"
  | VLenArr "sample list list"

text \<open>
  \<open>maxshape\<close> is \<open>None\<close> for a dataset created without \<^verbatim>\<open>maxshape\<close> (it cannot be
  resized); otherwise it gives the bound of each axis, \<open>None\<close> for an unbounded axis.
  \<open>dims\<close> lists the dimension scales attached to the dataset (axis, path of the scale),
  \<open>dim_labels\<close> the labels of its axes, and \<open>scale_name\<close> is set on a dataset that was
  made a dimension scale.
\<close>

record dataset =
  content :: content
  maxshape :: "nat option list option"
  fillvalue :: sample
  attrs :: "string \<rightharpoonup> attr"
  dims :: "(nat \<times> path) list"
  dim_labels :: "(nat \<times> string) list"
  scale_name :: "string option"

datatype node = Group "string \<rightharpoonup> attr" | Dataset dataset

text \<open>
  The writer object: its configured dialect, the file, the id-to-path dictionary of the
  in-memory model tree (\<^verbatim>\<open>self.modelroot.get_id_path_dict()\<close>, a dictionary kept as the
  list of its items) and the errors whose message it has printed.
\<close>

record writer =
  dialect :: dialect
  nodes :: "path \<rightharpoonup> node"
  id_path_dict :: "(string \<times> string) list"
  log :: "error list"

type_synonym 'r res = "(error + 'r) \<times> writer"

definition UNIFORM :: string where "UNIFORM = ''uniform''"
definition NONUNIFORM :: string where "NONUNIFORM = ''nonuniform''"
definition EVENT :: string where "EVENT = ''event''"
definition STATIC :: string where "STATIC = ''static''"

definition data_grp :: "string \<Rightarrow> path" where
  "data_grp stype = [''data'', stype]"

definition mapping_grp :: "string \<Rightarrow> path" where
  "mapping_grp stype = [''map'', stype]"

definition time_dim :: path where
  "time_dim = [''map'', ''time'']"

definition modeltree :: path where
  "modeltree = [''model'', ''modeltree'']"

subsection \<open>Operations of the storage library\<close>

text \<open>\<^verbatim>\<open>group[name]\<close>: the object at a path, \<^verbatim>\<open>KeyError\<close> when there is none.\<close>

definition h5_getitem :: "writer \<Rightarrow> path \<Rightarrow> error + node" where
  "h5_getitem w p = (case nodes w p of None \<Rightarrow> Inl (KeyError_missing p) | Some n \<Rightarrow> Inr n)"

text \<open>\<^verbatim>\<open>parent.require_group(name)\<close>: opens the group, creating it when absent.\<close>

definition require_group :: "writer \<Rightarrow> path \<Rightarrow> string \<Rightarrow> path res" where
  "require_group w parent nm =
     (case nodes w (parent @ [nm]) of
        None \<Rightarrow> (Inr (parent @ [nm]), w\<lparr>nodes := (nodes w)(parent @ [nm] \<mapsto> Group Map.empty)\<rparr>)
      | Some (Group _) \<Rightarrow> (Inr (parent @ [nm]), w)
      | Some (Dataset _) \<Rightarrow> (Inl H5_type, w))"

text \<open>\<^verbatim>\<open>self.data[stype].require_group(popname)\<close>: the base group must exist.\<close>

definition require_subgroup :: "writer \<Rightarrow> path \<Rightarrow> string \<Rightarrow> path res" where
  "require_subgroup w base nm =
     (case h5_getitem w base of
        Inl e \<Rightarrow> (Inl e, w)
      | Inr (Dataset _) \<Rightarrow> (Inl H5_type, w)
      | Inr (Group _) \<Rightarrow> require_group w base nm)"

definition new_dataset :: "content \<Rightarrow> nat option list option \<Rightarrow> sample \<Rightarrow> dataset" where
  "new_dataset c ms fv =
     \<lparr>content = c, maxshape = ms, fillvalue = fv, attrs = Map.empty, dims = [],
      dim_labels = [], scale_name = None\<rparr>"

text \<open>\<^verbatim>\<open>group.create_dataset(name, ...)\<close>: fails when the name is taken.\<close>

definition create_dataset :: "writer \<Rightarrow> path \<Rightarrow> dataset \<Rightarrow> path res" where
  "create_dataset w p d =
     (case nodes w p of
        None \<Rightarrow> (Inr p, w\<lparr>nodes := (nodes w)(p \<mapsto> Dataset d)\<rparr>)
      | Some _ \<Rightarrow> (Inl (H5_exists p), w))"

text \<open>Updating the dataset behind a handle; a handle always denotes a dataset.\<close>

definition upd_dataset :: "writer \<Rightarrow> path \<Rightarrow> (dataset \<Rightarrow> dataset) \<Rightarrow> writer" where
  "upd_dataset w p f =
     (case nodes w p of
        Some (Dataset d) \<Rightarrow> w\<lparr>nodes := (nodes w)(p \<mapsto> Dataset (f d))\<rparr>
      | _ \<Rightarrow> w)"

text \<open>\<^verbatim>\<open>obj.attrs[key] = value\<close> on a group or a dataset.\<close>

definition set_attr :: "writer \<Rightarrow> path \<Rightarrow> string \<Rightarrow> attr \<Rightarrow> writer" where
  "set_attr w p k v =
     (case nodes w p of
        Some (Dataset d) \<Rightarrow> w\<lparr>nodes := (nodes w)(p \<mapsto> Dataset (d\<lparr>attrs := (attrs d)(k \<mapsto> v)\<rparr>))\<rparr>
      | Some (Group a) \<Rightarrow> w\<lparr>nodes := (nodes w)(p \<mapsto> Group (a(k \<mapsto> v)))\<rparr>
      | None \<Rightarrow> w)"

definition node_attrs :: "node \<Rightarrow> (string \<rightharpoonup> attr)" where
  "node_attrs n = (case n of Group a \<Rightarrow> a | Dataset d \<Rightarrow> attrs d)"

text \<open>\<^verbatim>\<open>dataset.dims.create_scale(scale, name)\<close> and \<^verbatim>\<open>dataset.dims[axis].attach_scale(scale)\<close>.\<close>

definition create_scale :: "writer \<Rightarrow> path \<Rightarrow> string \<Rightarrow> writer" where
  "create_scale w scale nm = upd_dataset w scale (\<lambda>d. d\<lparr>scale_name := Some nm\<rparr>)"

definition attach_scale :: "writer \<Rightarrow> path \<Rightarrow> nat \<Rightarrow> path \<Rightarrow> writer" where
  "attach_scale w p axis scale = upd_dataset w p (\<lambda>d. d\<lparr>dims := dims d @ [(axis, scale)]\<rparr>)"

definition set_dim_label :: "writer \<Rightarrow> path \<Rightarrow> nat \<Rightarrow> string \<Rightarrow> writer" where
  "set_dim_label w p axis l = upd_dataset w p (\<lambda>d. d\<lparr>dim_labels := dim_labels d @ [(axis, l)]\<rparr>)"

text \<open>Iterating over a mapping dataset of plain source ids (\<^verbatim>\<open>for src in source_ds\<close>).\<close>

definition ds_items :: "writer \<Rightarrow> path \<Rightarrow> error + string list" where
  "ds_items w source_ds =
     (case nodes w source_ds of
        Some (Dataset d) \<Rightarrow> (case content d of Strs ids \<Rightarrow> Inr ids | _ \<Rightarrow> Inl H5_type)
      | _ \<Rightarrow> Inl H5_type)"

text \<open>The column count \<^verbatim>\<open>shape[1]\<close> of a 2-D array.\<close>

definition ncols :: "sample list list \<Rightarrow> nat" where
  "ncols rs = (case rs of [] \<Rightarrow> 0 | r # _ \<Rightarrow> length r)"

text \<open>
  \<^verbatim>\<open>dataset.resize(n, axis=1)\<close> on a 2-D dataset: every row is cut to \<open>n\<close> cells or
  extended to \<open>n\<close> cells with the fill value. It fails on a dataset without
  \<^verbatim>\<open>maxshape\<close> and beyond the bound of axis 1.
\<close>

definition resize_row :: "sample \<Rightarrow> nat \<Rightarrow> sample list \<Rightarrow> sample list" where
  "resize_row fv n r = take n r @ replicate (n - length r) fv"

definition resize_cols :: "dataset \<Rightarrow> nat \<Rightarrow> error + dataset" where
  "resize_cols d n =
     (case content d of
        Arr2 rs \<Rightarrow>
          (case maxshape d of
             None \<Rightarrow> Inl H5_resize
           | Some ms \<Rightarrow>
               (if length ms = 2 \<and> (case ms ! 1 of None \<Rightarrow> True | Some m \<Rightarrow> n \<le> m)
                then Inr (d\<lparr>content := Arr2 (map (resize_row (fillvalue d) n) rs)\<rparr>)
                else Inl H5_resize))
      | _ \<Rightarrow> Inl H5_type)"

section \<open>Data batches\<close>

text \<open>
  Modelled from the spec: the data objects (\<^verbatim>\<open>nsdf.UniformData\<close>, \<^verbatim>\<open>NonuniformData\<close>,
  \<^verbatim>\<open>EventData\<close>, ...) are defined in a module that is not part of the sources at hand.
  The spec describes a batch as the sources it covers, a field name, a physical unit, a
  time unit and, depending on the dialect, a fixed sampling interval, an explicit shared
  time vector, or per-source data. The writer reads it through \<^verbatim>\<open>name\<close>, \<^verbatim>\<open>unit\<close>,
  \<^verbatim>\<open>tunit\<close>, \<^verbatim>\<open>field\<close>, \<^verbatim>\<open>dt\<close>, \<^verbatim>\<open>get_times()\<close>, \<^verbatim>\<open>get_sources()\<close> and
  \<^verbatim>\<open>get_data(source)\<close>. The per-source entries are kept as a list of pairs, so that a
  source list with repeated ids can be expressed; \<open>'d\<close> is what \<^verbatim>\<open>get_data\<close> returns
  (the samples, or the pair of samples and sampling times).
\<close>

record 'd data_object =
  name :: string
  unit :: "string option"
  tunit :: "string option"
  field :: string
  dt :: "real option"
  sampling_times :: "sample list"
  src_data :: "(string \<times> 'd) list"

definition get_sources :: "'d data_object \<Rightarrow> string list" where
  "get_sources b = map fst (src_data b)"

definition get_data :: "'d data_object \<Rightarrow> string \<Rightarrow> error + 'd" where
  "get_data b src = (case map_of (src_data b) src of None \<Rightarrow> Inl (KeyError_source src) | Some x \<Rightarrow> Inr x)"

definition get_times :: "'d data_object \<Rightarrow> sample list" where
  "get_times b = sampling_times b"

text \<open>\<^verbatim>\<open>[data_object.get_data(src) for src in source_ds]\<close>: the first failure is raised.\<close>

fun get_all :: "'d data_object \<Rightarrow> string list \<Rightarrow> error + 'd list" where
  "get_all b [] = Inr []"
| "get_all b (s # ss) =
     (case get_data b s of
        Inl e \<Rightarrow> Inl e
      | Inr x \<Rightarrow> (case get_all b ss of Inl e \<Rightarrow> Inl e | Inr xs \<Rightarrow> Inr (x # xs)))"

section \<open>The writer\<close>

definition match_datasets :: "string list \<Rightarrow> string list \<Rightarrow> bool" where
  "match_datasets hdfds pydata = (set hdfds = set pydata)"

text \<open>\<^verbatim>\<open>np.vstack\<close> of 1-D arrays: they must be at least one and of one length.\<close>

definition vstack :: "sample list list \<Rightarrow> error + sample list list" where
  "vstack rs =
     (case rs of
        [] \<Rightarrow> Inl ValueError_numpy
      | r # rest \<Rightarrow> (if list_all (\<lambda>x. length x = length r) rest then Inr rs else Inl ValueError_numpy))"

text \<open>
  \<^verbatim>\<open>dataset[:, oldcolcount:] = data\<close>: the block of new columns replaces the cells from
  column \<open>oldcolcount\<close> on, row by row; the row counts must agree.
\<close>

definition write_cols :: "sample list list \<Rightarrow> nat \<Rightarrow> sample list list \<Rightarrow> error + sample list list" where
  "write_cols rs oldcolcount data =
     (if length rs = length data
      then Inr (map (\<lambda>(r, x). take oldcolcount r @ x) (zip rs data))
      else Inl H5_type)"

text \<open>In Python 2, \<^verbatim>\<open>None <= 0.0\<close> holds: a missing \<^verbatim>\<open>dt\<close> is rejected like a non-positive one.\<close>

definition dt_le_zero :: "real option \<Rightarrow> bool" where
  "dt_le_zero d = (case d of None \<Rightarrow> True | Some x \<Rightarrow> x \<le> 0)"

definition dt_attr :: "real option \<Rightarrow> attr" where
  "dt_attr d = (case d of None \<Rightarrow> ANum 0 | Some x \<Rightarrow> ANum x)"

text \<open>The \<^verbatim>\<open>try\<close> block of \<^verbatim>\<open>add_uniform_data\<close> once \<^verbatim>\<open>ugrp[data_object.name]\<close> was found.\<close>

definition append_columns :: "writer \<Rightarrow> path \<Rightarrow> node \<Rightarrow> sample list list \<Rightarrow> path res" where
  "append_columns w p n data =
     (case n of
        Group _ \<Rightarrow> (Inl H5_type, w)
      | Dataset d \<Rightarrow>
          (case content d of
             Arr2 rs \<Rightarrow>
               (let oldcolcount = ncols rs in
                case resize_cols d (oldcolcount + ncols data) of
                  Inl e \<Rightarrow> (Inl e, w)
                | Inr d1 \<Rightarrow>
                    (let w1 = w\<lparr>nodes := (nodes w)(p \<mapsto> Dataset d1)\<rparr> in
                     case content d1 of
                       Arr2 rs1 \<Rightarrow>
                         (case write_cols rs1 oldcolcount data of
                            Inl e \<Rightarrow> (Inl e, w1)
                          | Inr rs2 \<Rightarrow>
                              (Inr p, w1\<lparr>nodes := (nodes w1)(p \<mapsto> Dataset (d1\<lparr>content := Arr2 rs2\<rparr>))\<rparr>))
                     | _ \<Rightarrow> (Inl H5_type, w1)))
           | _ \<Rightarrow> (Inl H5_type, w)))"

text \<open>The \<^verbatim>\<open>except KeyError\<close> block of \<^verbatim>\<open>add_uniform_data\<close>: the first write.\<close>

definition add_uniform_data_create ::
  "writer \<Rightarrow> path \<Rightarrow> path \<Rightarrow> (sample list) data_object \<Rightarrow> sample list list \<Rightarrow> real \<Rightarrow> bool \<Rightarrow> path res" where
  "add_uniform_data_create w source_ds ugrp data_object data tstart fixed =
     (if dt_le_zero (dt data_object) then (Inl ValueError_dt, w)
      else if unit data_object = None then (Inl ValueError_unit, w)
      else if tunit data_object = None then (Inl ValueError_tunit, w)
      else
        (let maxcol = (if fixed then Some (ncols data) else None) in
         case create_dataset w (ugrp @ [name data_object])
                (new_dataset (Arr2 data) (Some [Some (length data), maxcol]) (Val 0)) of
           (Inl e, w1) \<Rightarrow> (Inl e, w1)
         | (Inr p, w1) \<Rightarrow>
             (let w2 = create_scale w1 source_ds ''source'';
                  w3 = attach_scale w2 p 0 source_ds;
                  w4 = set_attr w3 p ''tstart'' (ANum tstart);
                  w5 = set_attr w4 p ''dt'' (dt_attr (dt data_object));
                  w6 = set_attr w5 p ''field'' (AStr (field data_object));
                  w7 = set_attr w6 p ''unit'' (AStr (the (unit data_object)));
                  w8 = set_attr w7 p ''timeunit'' (AStr (the (tunit data_object)))
              in (Inr p, w8))))"

definition add_uniform_data ::
  "writer \<Rightarrow> path \<Rightarrow> (sample list) data_object \<Rightarrow> real \<Rightarrow> bool \<Rightarrow> path res" where
  "add_uniform_data w source_ds data_object tstart fixed =
     (let popname = last source_ds in
      case require_subgroup w (data_grp UNIFORM) popname of
        (Inl e, w1) \<Rightarrow> (Inl e, w1)
      | (Inr ugrp, w1) \<Rightarrow>
          (case ds_items w1 source_ds of
             Inl e \<Rightarrow> (Inl e, w1)
           | Inr ids \<Rightarrow>
               (if \<not> match_datasets ids (get_sources data_object) then (Inl KeyError_sources, w1)
                else
                  (case get_all data_object ids of
                     Inl e \<Rightarrow> (Inl e, w1)
                   | Inr ordered_data \<Rightarrow>
                       (case vstack ordered_data of
                          Inl e \<Rightarrow> (Inl e, w1)
                        | Inr data \<Rightarrow>
                            (case h5_getitem w1 (ugrp @ [name data_object]) of
                               Inr n \<Rightarrow> append_columns w1 (ugrp @ [name data_object]) n data
                             | Inl _ \<Rightarrow>
                                 add_uniform_data_create w1 source_ds ugrp data_object data tstart fixed))))))"


subsection \<open>Regular shared-time data\<close>

text \<open>The \<^verbatim>\<open>except KeyError\<close> block of \<^verbatim>\<open>add_nonuniform_regular\<close>.\<close>

definition add_nonuniform_regular_create ::
  "writer \<Rightarrow> path \<Rightarrow> path \<Rightarrow> (sample list) data_object \<Rightarrow> sample list list \<Rightarrow> bool \<Rightarrow> path res" where
  "add_nonuniform_regular_create w source_ds ngrp data_object data fixed =
     (if unit data_object = None then (Inl ValueError_unit, w)
      else if tunit data_object = None then (Inl ValueError_tunit, w)
      else
        (let maxcol = (if fixed then Some (ncols data) else None) in
         case create_dataset w (ngrp @ [name data_object])
                (new_dataset (Arr2 data) (Some [Some (length data), maxcol]) (Val 0)) of
           (Inl e, w1) \<Rightarrow> (Inl e, w1)
         | (Inr p, w1) \<Rightarrow>
             (let w2 = create_scale w1 source_ds ''source'';
                  w3 = attach_scale w2 p 0 source_ds;
                  w4 = set_attr w3 p ''field'' (AStr (field data_object));
                  w5 = set_attr w4 p ''unit'' (AStr (the (unit data_object)));
                  tsname = last source_ds @ ''_'' @ name data_object
              in case create_dataset w5 (time_dim @ [tsname])
                        (new_dataset (Arr1 (get_times data_object)) None (Val 0)) of
                   (Inl e, w6) \<Rightarrow> (Inl e, w6)
                 | (Inr tscale, w6) \<Rightarrow>
                     (let w7 = create_scale w6 tscale ''time'';
                          w8 = set_dim_label w7 p 1 ''time'';
                          w9 = attach_scale w8 p 1 tscale;
                          w10 = set_attr w9 tscale ''unit'' (AStr (the (tunit data_object)))
                      in (Inr p, w10)))))"

definition add_nonuniform_regular ::
  "writer \<Rightarrow> path \<Rightarrow> (sample list) data_object \<Rightarrow> bool \<Rightarrow> path res" where
  "add_nonuniform_regular w source_ds data_object fixed =
     (let popname = last source_ds in
      case require_subgroup w (data_grp NONUNIFORM) popname of
        (Inl e, w1) \<Rightarrow> (Inl e, w1)
      | (Inr ngrp, w1) \<Rightarrow>
          (case ds_items w1 source_ds of
             Inl e \<Rightarrow> (Inl e, w1)
           | Inr ids \<Rightarrow>
               (if \<not> match_datasets ids (get_sources data_object) then (Inl KeyError_sources, w1)
                else
                  (case get_all data_object ids of
                     Inl e \<Rightarrow> (Inl e, w1)
                   | Inr ordered_data \<Rightarrow>
                       (case vstack ordered_data of
                          Inl e \<Rightarrow> (Inl e, w1)
                        | Inr data \<Rightarrow>
                            (if ncols data \<noteq> length (get_times data_object)
                             then (Inl ValueError_times, w1)
                             else
                               (case h5_getitem w1 (ngrp @ [name data_object]) of
                                  Inr n \<Rightarrow> append_columns w1 (ngrp @ [name data_object]) n data
                                | Inl _ \<Rightarrow>
                                    add_nonuniform_regular_create w1 source_ds ngrp data_object data fixed)))))))"

subsection \<open>Static data\<close>

definition add_static_data_create ::
  "writer \<Rightarrow> path \<Rightarrow> path \<Rightarrow> (sample list) data_object \<Rightarrow> sample list list \<Rightarrow> bool \<Rightarrow> path res" where
  "add_static_data_create w source_ds ugrp data_object data fixed =
     (if unit data_object = None then (Inl ValueError_unit, w)
      else
        (let maxcol = (if fixed then Some (ncols data) else None) in
         case create_dataset w (ugrp @ [name data_object])
                (new_dataset (Arr2 data) (Some [Some (length data), maxcol]) (Val 0)) of
           (Inl e, w1) \<Rightarrow> (Inl e, w1)
         | (Inr p, w1) \<Rightarrow>
             (let w2 = create_scale w1 source_ds ''source'';
                  w3 = attach_scale w2 p 0 source_ds;
                  w4 = set_attr w3 p ''field'' (AStr (field data_object));
                  w5 = set_attr w4 p ''unit'' (AStr (the (unit data_object)))
              in (Inr p, w5))))"

definition add_static_data ::
  "writer \<Rightarrow> path \<Rightarrow> (sample list) data_object \<Rightarrow> bool \<Rightarrow> path res" where
  "add_static_data w source_ds data_object fixed =
     (let popname = last source_ds in
      case require_subgroup w (data_grp STATIC) popname of
        (Inl e, w1) \<Rightarrow> (Inl e, w1)
      | (Inr ugrp, w1) \<Rightarrow>
          (case ds_items w1 source_ds of
             Inl e \<Rightarrow> (Inl e, w1)
           | Inr ids \<Rightarrow>
               (if \<not> match_datasets ids (get_sources data_object) then (Inl KeyError_sources, w1)
                else
                  (case get_all data_object ids of
                     Inl e \<Rightarrow> (Inl e, w1)
                   | Inr ordered_data \<Rightarrow>
                       (case vstack ordered_data of
                          Inl e \<Rightarrow> (Inl e, w1)
                        | Inr data \<Rightarrow>
                            (case h5_getitem w1 (ugrp @ [name data_object]) of
                               Inr n \<Rightarrow> append_columns w1 (ugrp @ [name data_object]) n data
                             | Inl _ \<Rightarrow>
                                 add_static_data_create w1 source_ds ugrp data_object data fixed))))))"

subsection \<open>Ragged (variable-length) data\<close>

text \<open>
  \<^verbatim>\<open>dataset[iii] = np.concatenate((dataset[iii], data))\<close>: the row is read, the new
  samples are put behind it, and the whole row is written back.
\<close>

definition vlen_extend :: "writer \<Rightarrow> path \<Rightarrow> nat \<Rightarrow> sample list \<Rightarrow> unit res" where
  "vlen_extend w p iii data =
     (case nodes w p of
        Some (Dataset d) \<Rightarrow>
          (case content d of
             VLenArr rs \<Rightarrow>
               (if iii < length rs
                then (Inr (), w\<lparr>nodes := (nodes w)(p \<mapsto> Dataset (d\<lparr>content := VLenArr (rs[iii := rs ! iii @ data])\<rparr>))\<rparr>)
                else (Inl H5_type, w))
           | _ \<Rightarrow> (Inl H5_type, w))
      | _ \<Rightarrow> (Inl H5_type, w))"

text \<open>The final loop of \<^verbatim>\<open>add_event_vlen\<close> over \<^verbatim>\<open>enumerate(source_ds)\<close>.\<close>

fun event_vlen_loop :: "writer \<Rightarrow> path \<Rightarrow> (sample list) data_object \<Rightarrow> (nat \<times> string) list \<Rightarrow> unit res" where
  "event_vlen_loop w p data_object [] = (Inr (), w)"
| "event_vlen_loop w p data_object ((iii, source) # rest) =
     (case get_data data_object source of
        Inl e \<Rightarrow> (Inl e, w)
      | Inr data \<Rightarrow>
          (case vlen_extend w p iii data of
             (Inl e, w1) \<Rightarrow> (Inl e, w1)
           | (Inr _, w1) \<Rightarrow> event_vlen_loop w1 p data_object rest))"

definition add_event_vlen_create ::
  "writer \<Rightarrow> path \<Rightarrow> path \<Rightarrow> string list \<Rightarrow> (sample list) data_object \<Rightarrow> bool \<Rightarrow> path res" where
  "add_event_vlen_create w source_ds ngrp ids data_object fixed =
     (if unit data_object = None then (Inl ValueError_unit, w)
      else
        (let maxrows = (if fixed then Some (length ids) else None) in
         case create_dataset w (ngrp @ [name data_object])
                (new_dataset (VLenArr (replicate (length ids) [])) (Some [maxrows]) (Val 0)) of
           (Inl e, w1) \<Rightarrow> (Inl e, w1)
         | (Inr p, w1) \<Rightarrow>
             (let w2 = set_attr w1 p ''field'' (AStr (field data_object));
                  w3 = set_attr w2 p ''unit'' (AStr (the (unit data_object)));
                  w4 = create_scale w3 source_ds ''source'';
                  w5 = attach_scale w4 p 0 source_ds
              in (Inr p, w5))))"

definition enumerate_py :: "'a list \<Rightarrow> (nat \<times> 'a) list" where
  "enumerate_py xs = zip [0..<length xs] xs"

definition add_event_vlen ::
  "writer \<Rightarrow> path \<Rightarrow> (sample list) data_object \<Rightarrow> bool \<Rightarrow> path res" where
  "add_event_vlen w source_ds data_object fixed =
     (if dialect w \<noteq> VLEN then (Inl DialectException, w)
      else
        (let popname = last source_ds in
         case require_subgroup w (data_grp EVENT) popname of
           (Inl e, w1) \<Rightarrow> (Inl e, w1)
         | (Inr ngrp, w1) \<Rightarrow>
             (case ds_items w1 source_ds of
                Inl e \<Rightarrow> (Inl e, w1)
              | Inr ids \<Rightarrow>
                  (if \<not> match_datasets ids (get_sources data_object) then (Inl KeyError_sources, w1)
                   else
                     (case (case h5_getitem w1 (ngrp @ [name data_object]) of
                              Inr _ \<Rightarrow> (Inr (ngrp @ [name data_object]), w1)
                            | Inl _ \<Rightarrow> add_event_vlen_create w1 source_ds ngrp ids data_object fixed) of
                        (Inl e, w2) \<Rightarrow> (Inl e, w2)
                      | (Inr p, w2) \<Rightarrow>
                          (case event_vlen_loop w2 p data_object (enumerate_py ids) of
                             (Inl e, w3) \<Rightarrow> (Inl e, w3)
                           | (Inr _, w3) \<Rightarrow> (Inr p, w3)))))))"

text \<open>
  \<^verbatim>\<open>add_nonuniform_vlen\<close>: \<^verbatim>\<open>get_data\<close> gives the pair (data, time) of a source, and the
  sampling times are kept in a second ragged dataset under \<^verbatim>\<open>/map/time\<close>.
\<close>

fun nonuniform_vlen_loop ::
  "writer \<Rightarrow> path \<Rightarrow> path \<Rightarrow> (sample list \<times> sample list) data_object \<Rightarrow> (nat \<times> string) list \<Rightarrow> unit res" where
  "nonuniform_vlen_loop w p time_ds data_object [] = (Inr (), w)"
| "nonuniform_vlen_loop w p time_ds data_object ((iii, source) # rest) =
     (case get_data data_object source of
        Inl e \<Rightarrow> (Inl e, w)
      | Inr (data, time) \<Rightarrow>
          (case vlen_extend w p iii data of
             (Inl e, w1) \<Rightarrow> (Inl e, w1)
           | (Inr _, w1) \<Rightarrow>
               (case vlen_extend w1 time_ds iii time of
                  (Inl e, w2) \<Rightarrow> (Inl e, w2)
                | (Inr _, w2) \<Rightarrow> nonuniform_vlen_loop w2 p time_ds data_object rest)))"

definition add_nonuniform_vlen_create ::
  "writer \<Rightarrow> path \<Rightarrow> path \<Rightarrow> string list \<Rightarrow> (sample list \<times> sample list) data_object \<Rightarrow> bool
     \<Rightarrow> (path \<times> path) res" where
  "add_nonuniform_vlen_create w source_ds ngrp ids data_object fixed =
     (if unit data_object = None then (Inl ValueError_unit, w)
      else if tunit data_object = None then (Inl ValueError_tunit, w)
      else
        (let maxrows = (if fixed then Some (length ids) else None);
             tsname = last source_ds @ ''_'' @ name data_object in
         case create_dataset w (ngrp @ [name data_object])
                (new_dataset (VLenArr (replicate (length ids) [])) None (Val 0)) of
           (Inl e, w1) \<Rightarrow> (Inl e, w1)
         | (Inr p, w1) \<Rightarrow>
             (let w2 = set_attr w1 p ''field'' (AStr (field data_object));
                  w3 = set_attr w2 p ''unit'' (AStr (the (unit data_object)));
                  w4 = create_scale w3 source_ds ''source'';
                  w5 = attach_scale w4 p 0 source_ds
              in case create_dataset w5 (time_dim @ [tsname])
                        (new_dataset (VLenArr (replicate (length ids) [])) (Some [maxrows]) (Val 0)) of
                   (Inl e, w6) \<Rightarrow> (Inl e, w6)
                 | (Inr time_ds, w6) \<Rightarrow>
                     (let w7 = create_scale w6 time_ds ''time'';
                          w8 = attach_scale w7 p 0 time_ds;
                          w9 = set_attr w8 time_ds ''unit'' (AStr (the (tunit data_object)))
                      in (Inr (p, time_ds), w9)))))"

definition add_nonuniform_vlen ::
  "writer \<Rightarrow> path \<Rightarrow> (sample list \<times> sample list) data_object \<Rightarrow> bool \<Rightarrow> (path \<times> path) res" where
  "add_nonuniform_vlen w source_ds data_object fixed =
     (if dialect w \<noteq> VLEN then (Inl DialectException, w)
      else
        (let popname = last source_ds in
         case require_subgroup w (data_grp NONUNIFORM) popname of
           (Inl e, w1) \<Rightarrow> (Inl e, w1)
         | (Inr ngrp, w1) \<Rightarrow>
             (case ds_items w1 source_ds of
                Inl e \<Rightarrow> (Inl e, w1)
              | Inr ids \<Rightarrow>
                  (if \<not> match_datasets ids (get_sources data_object) then (Inl KeyError_sources, w1)
                   else
                     (let tsname = popname @ ''_'' @ name data_object in
                      case (case h5_getitem w1 (ngrp @ [name data_object]) of
                              Inl _ \<Rightarrow> add_nonuniform_vlen_create w1 source_ds ngrp ids data_object fixed
                            | Inr _ \<Rightarrow>
                                (case h5_getitem w1 (time_dim @ [tsname]) of
                                   Inl _ \<Rightarrow> add_nonuniform_vlen_create w1 source_ds ngrp ids data_object fixed
                                 | Inr _ \<Rightarrow> (Inr (ngrp @ [name data_object], time_dim @ [tsname]), w1))) of
                        (Inl e, w2) \<Rightarrow> (Inl e, w2)
                      | (Inr (p, time_ds), w2) \<Rightarrow>
                          (case nonuniform_vlen_loop w2 p time_ds data_object (enumerate_py ids) of
                             (Inl e, w3) \<Rightarrow> (Inl e, w3)
                           | (Inr _, w3) \<Rightarrow> (Inr (p, time_ds), w3)))))))"


subsection \<open>NaN-padded data\<close>

text \<open>
  Modelled from the spec: \<^verbatim>\<open>find\<close> comes from a utility module that is not part of the
  sources at hand. The writer takes \<^verbatim>\<open>next(find(dataset[iii], np.isnan))[0][0]\<close> and
  falls back to \<^verbatim>\<open>len(dataset[iii])\<close> on \<^verbatim>\<open>StopIteration\<close>; the spec calls the result the
  index of the first sentinel cell in that row, the row being all data if no sentinel is
  found.
\<close>

definition first_nan :: "sample list \<Rightarrow> nat" where
  "first_nan r = length (takeWhile (\<lambda>x. x \<noteq> NaN) r)"

text \<open>\<^verbatim>\<open>max(ends)\<close>: fails on the empty sequence.\<close>

definition max_list :: "nat list \<Rightarrow> error + nat" where
  "max_list xs = (case xs of [] \<Rightarrow> Inl ValueError_numpy | x # r \<Rightarrow> Inr (fold max r x))"

text \<open>
  \<^verbatim>\<open>row[s:e] = x\<close> on a row of a 2-D dataset: the slice must lie in the row and have the
  length of \<open>x\<close>.
\<close>

definition slice_assign :: "sample list \<Rightarrow> nat \<Rightarrow> nat \<Rightarrow> sample list \<Rightarrow> error + sample list" where
  "slice_assign r s e x =
     (if s \<le> e \<and> e \<le> length r \<and> length x = e - s
      then Inr (take s r @ x @ drop e r)
      else Inl H5_type)"

text \<open>\<^verbatim>\<open>dataset[iii, s:e] = data\<close>.\<close>

definition write_row_slice :: "writer \<Rightarrow> path \<Rightarrow> nat \<Rightarrow> nat \<Rightarrow> nat \<Rightarrow> sample list \<Rightarrow> unit res" where
  "write_row_slice w p iii s e x =
     (case nodes w p of
        Some (Dataset d) \<Rightarrow>
          (case content d of
             Arr2 rs \<Rightarrow>
               (if iii < length rs
                then (case slice_assign (rs ! iii) s e x of
                        Inl err \<Rightarrow> (Inl err, w)
                      | Inr r \<Rightarrow>
                          (Inr (), w\<lparr>nodes := (nodes w)(p \<mapsto> Dataset (d\<lparr>content := Arr2 (rs[iii := r])\<rparr>))\<rparr>))
                else (Inl H5_type, w))
           | _ \<Rightarrow> (Inl H5_type, w))
      | _ \<Rightarrow> (Inl H5_type, w))"

text \<open>\<^verbatim>\<open>dataset.resize(n, 1)\<close> on the dataset behind a handle.\<close>

definition resize_at :: "writer \<Rightarrow> path \<Rightarrow> nat \<Rightarrow> unit res" where
  "resize_at w p n =
     (case nodes w p of
        Some (Dataset d) \<Rightarrow>
          (case resize_cols d n of
             Inl e \<Rightarrow> (Inl e, w)
           | Inr d1 \<Rightarrow> (Inr (), w\<lparr>nodes := (nodes w)(p \<mapsto> Dataset d1)\<rparr>))
      | _ \<Rightarrow> (Inl H5_type, w))"

text \<open>
  The rows of the 2-D dataset behind a handle (\<^verbatim>\<open>dataset[iii]\<close>, \<^verbatim>\<open>dataset.shape[0]\<close>).
\<close>

definition rows_of :: "node \<Rightarrow> error + sample list list" where
  "rows_of n =
     (case n of
        Dataset d \<Rightarrow> (case content d of Arr2 rs \<Rightarrow> Inr rs | _ \<Rightarrow> Inl H5_type)
      | Group _ \<Rightarrow> Inl H5_type)"

text \<open>
  The loop of \<^verbatim>\<open>add_event_nan\<close> that finds where each row's data ends. It runs over
  \<^verbatim>\<open>range(dataset.shape[0])\<close>: with more rows than sources, \<^verbatim>\<open>starts[iii]\<close> is out of
  range; with fewer rows, the remaining entries keep their initial values
  \<open>starts = 0\<close>, \<open>ends = cols\<close>.
\<close>

definition event_nan_starts :: "sample list list \<Rightarrow> nat \<Rightarrow> error + nat list" where
  "event_nan_starts rs n =
     (if length rs \<le> n then Inr (map first_nan rs @ replicate (n - length rs) 0)
      else Inl H5_type)"

text \<open>
  The same loop in \<^verbatim>\<open>add_nonuniform_nan\<close> runs over \<^verbatim>\<open>range(source_ds.shape[0])\<close>: with
  fewer rows than sources, \<^verbatim>\<open>dataset[iii]\<close> is out of range.
\<close>

definition nonuniform_nan_starts :: "sample list list \<Rightarrow> nat \<Rightarrow> error + nat list" where
  "nonuniform_nan_starts rs n =
     (if n \<le> length rs then Inr (map first_nan (take n rs))
      else Inl H5_type)"

definition nan_ends :: "nat list \<Rightarrow> nat list \<Rightarrow> nat list" where
  "nan_ends starts cols = map (\<lambda>(s, c). s + c) (zip starts cols)"

text \<open>
  The final loop of \<^verbatim>\<open>add_event_nan\<close>. The indices come from \<^verbatim>\<open>enumerate(source_ds)\<close>
  and \<open>starts\<close>, \<open>ends\<close> have one entry per source, so \<open>starts ! iii\<close> and \<open>ends ! iii\<close>
  are in range.
\<close>

fun event_nan_loop ::
  "writer \<Rightarrow> path \<Rightarrow> (sample list) data_object \<Rightarrow> nat list \<Rightarrow> nat list \<Rightarrow> (nat \<times> string) list \<Rightarrow> unit res" where
  "event_nan_loop w p data_object starts ends [] = (Inr (), w)"
| "event_nan_loop w p data_object starts ends ((iii, source) # rest) =
     (case get_data data_object source of
        Inl e \<Rightarrow> (Inl e, w)
      | Inr data \<Rightarrow>
          (case write_row_slice w p iii (starts ! iii) (ends ! iii) data of
             (Inl e, w1) \<Rightarrow> (Inl e, w1)
           | (Inr _, w1) \<Rightarrow> event_nan_loop w1 p data_object starts ends rest))"

text \<open>
  The \<^verbatim>\<open>try\<close> block of \<^verbatim>\<open>add_event_nan\<close> once \<^verbatim>\<open>ngrp[data_object.name]\<close> was found:
  it gives the start and end offsets.
\<close>

definition add_event_nan_try :: "writer \<Rightarrow> path \<Rightarrow> node \<Rightarrow> nat list \<Rightarrow> (nat list \<times> nat list) res" where
  "add_event_nan_try w p n cols =
     (case rows_of n of
        Inl e \<Rightarrow> (Inl e, w)
      | Inr rs \<Rightarrow>
          (case event_nan_starts rs (length cols) of
             Inl e \<Rightarrow> (Inl e, w)
           | Inr starts \<Rightarrow>
               (let ends = nan_ends starts cols in
                case max_list ends of
                  Inl e \<Rightarrow> (Inl e, w)
                | Inr m \<Rightarrow>
                    (case resize_at w p m of
                       (Inl e, w1) \<Rightarrow> (Inl e, w1)
                     | (Inr _, w1) \<Rightarrow> (Inr (starts, ends), w1)))))"

text \<open>The \<^verbatim>\<open>except KeyError\<close> block of \<^verbatim>\<open>add_event_nan\<close>; here \<open>ends = cols\<close>.\<close>

definition add_event_nan_create ::
  "writer \<Rightarrow> path \<Rightarrow> path \<Rightarrow> (sample list) data_object \<Rightarrow> nat list \<Rightarrow> bool \<Rightarrow> path res" where
  "add_event_nan_create w source_ds ngrp data_object cols fixed =
     (if unit data_object = None then (Inl ValueError_unit, w)
      else
        (case max_list cols of
           Inl e \<Rightarrow> (Inl e, w)
         | Inr m \<Rightarrow>
             (let maxrows = (if fixed then Some (length cols) else None);
                  maxcols = (if fixed then Some m else None) in
              case create_dataset w (ngrp @ [name data_object])
                     (new_dataset (Arr2 (replicate (length cols) (replicate m NaN)))
                        (Some [maxrows, maxcols]) NaN) of
                (Inl e, w1) \<Rightarrow> (Inl e, w1)
              | (Inr p, w1) \<Rightarrow>
                  (let w2 = set_attr w1 p ''field'' (AStr (field data_object));
                       w3 = set_attr w2 p ''unit'' (AStr (the (unit data_object)));
                       w4 = create_scale w3 source_ds ''source'';
                       w5 = attach_scale w4 p 0 source_ds
                   in (Inr p, w5)))))"

definition add_event_nan ::
  "writer \<Rightarrow> path \<Rightarrow> (sample list) data_object \<Rightarrow> bool \<Rightarrow> path res" where
  "add_event_nan w source_ds data_object fixed =
     (if dialect w \<noteq> NANPADDED then (Inl AssertionError, w)
      else
        (let popname = last source_ds in
         case require_subgroup w (data_grp EVENT) popname of
           (Inl e, w1) \<Rightarrow> (Inl e, w1)
         | (Inr ngrp, w1) \<Rightarrow>
             (case ds_items w1 source_ds of
                Inl e \<Rightarrow> (Inl e, w1)
              | Inr ids \<Rightarrow>
                  (if \<not> match_datasets ids (get_sources data_object) then (Inl KeyError_sources, w1)
                   else
                     (case get_all data_object ids of
                        Inl e \<Rightarrow> (Inl e, w1)
                      | Inr ordered_data \<Rightarrow>
                          (let cols = map length ordered_data;
                               p = ngrp @ [name data_object] in
                           case (case h5_getitem w1 p of
                                   Inr n \<Rightarrow> add_event_nan_try w1 p n cols
                                 | Inl _ \<Rightarrow>
                                     (case add_event_nan_create w1 source_ds ngrp data_object cols fixed of
                                        (Inl e, w2) \<Rightarrow> (Inl e, w2)
                                      | (Inr _, w2) \<Rightarrow> (Inr (replicate (length cols) 0, cols), w2))) of
                             (Inl e, w2) \<Rightarrow> (Inl e, w2)
                           | (Inr (starts, ends), w2) \<Rightarrow>
                               (case event_nan_loop w2 p data_object starts ends (enumerate_py ids) of
                                  (Inl e, w3) \<Rightarrow> (Inl e, w3)
                                | (Inr _, w3) \<Rightarrow> (Inr p, w3))))))))"

text \<open>
  \<^verbatim>\<open>add_nonuniform_nan\<close>: the sampling times go to a second NaN-padded dataset under
  \<^verbatim>\<open>/map/time\<close>, written at the same offsets.
\<close>

fun nonuniform_nan_loop ::
  "writer \<Rightarrow> path \<Rightarrow> path \<Rightarrow> (sample list \<times> sample list) data_object \<Rightarrow> nat list \<Rightarrow> nat list
     \<Rightarrow> (nat \<times> string) list \<Rightarrow> unit res" where
  "nonuniform_nan_loop w p time_ds data_object starts ends [] = (Inr (), w)"
| "nonuniform_nan_loop w p time_ds data_object starts ends ((iii, source) # rest) =
     (case get_data data_object source of
        Inl e \<Rightarrow> (Inl e, w)
      | Inr (data, time) \<Rightarrow>
          (case write_row_slice w p iii (starts ! iii) (ends ! iii) data of
             (Inl e, w1) \<Rightarrow> (Inl e, w1)
           | (Inr _, w1) \<Rightarrow>
               (case write_row_slice w1 time_ds iii (starts ! iii) (ends ! iii) time of
                  (Inl e, w2) \<Rightarrow> (Inl e, w2)
                | (Inr _, w2) \<Rightarrow> nonuniform_nan_loop w2 p time_ds data_object starts ends rest)))"

text \<open>
  The \<^verbatim>\<open>try\<close> block of \<^verbatim>\<open>add_nonuniform_nan\<close> once the data array was found. The time
  array is looked up after the data array was resized: \<open>Inr None\<close> stands for the
  \<^verbatim>\<open>KeyError\<close> of that lookup, which the \<^verbatim>\<open>except\<close> block then handles.
\<close>

definition add_nonuniform_nan_try ::
  "writer \<Rightarrow> path \<Rightarrow> path \<Rightarrow> node \<Rightarrow> nat list \<Rightarrow> ((nat list \<times> nat list) option) res" where
  "add_nonuniform_nan_try w p time_ds n cols =
     (case rows_of n of
        Inl e \<Rightarrow> (Inl e, w)
      | Inr rs \<Rightarrow>
          (case nonuniform_nan_starts rs (length cols) of
             Inl e \<Rightarrow> (Inl e, w)
           | Inr starts \<Rightarrow>
               (let ends = nan_ends starts cols in
                case max_list ends of
                  Inl e \<Rightarrow> (Inl e, w)
                | Inr m \<Rightarrow>
                    (case resize_at w p m of
                       (Inl e, w1) \<Rightarrow> (Inl e, w1)
                     | (Inr _, w1) \<Rightarrow>
                         (case h5_getitem w1 time_ds of
                            Inl _ \<Rightarrow> (Inr None, w1)
                          | Inr _ \<Rightarrow>
                              (case resize_at w1 time_ds m of
                                 (Inl e, w2) \<Rightarrow> (Inl e, w2)
                               | (Inr _, w2) \<Rightarrow> (Inr (Some (starts, ends)), w2)))))))"

definition add_nonuniform_nan_create ::
  "writer \<Rightarrow> path \<Rightarrow> path \<Rightarrow> path \<Rightarrow> (sample list \<times> sample list) data_object \<Rightarrow> nat list \<Rightarrow> bool
     \<Rightarrow> path res" where
  "add_nonuniform_nan_create w source_ds ngrp time_ds data_object cols fixed =
     (if unit data_object = None then (Inl ValueError_unit, w)
      else if tunit data_object = None then (Inl ValueError_tunit, w)
      else
        (case max_list cols of
           Inl e \<Rightarrow> (Inl e, w)
         | Inr m \<Rightarrow>
             (let maxrows = (if fixed then Some (length cols) else None);
                  maxcols = (if fixed then Some m else None) in
              case create_dataset w (ngrp @ [name data_object])
                     (new_dataset (Arr2 (replicate (length cols) (replicate m NaN)))
                        (Some [maxrows, maxcols]) NaN) of
                (Inl e, w1) \<Rightarrow> (Inl e, w1)
              | (Inr p, w1) \<Rightarrow>
                  (let w2 = set_attr w1 p ''field'' (AStr (field data_object));
                       w3 = set_attr w2 p ''unit'' (AStr (the (unit data_object)));
                       w4 = create_scale w3 source_ds ''source'';
                       w5 = attach_scale w4 p 0 source_ds
                   in case create_dataset w5 time_ds
                             (new_dataset (Arr2 (replicate (length cols) (replicate m NaN)))
                                (Some [maxrows, maxcols]) NaN) of
                        (Inl e, w6) \<Rightarrow> (Inl e, w6)
                      | (Inr _, w6) \<Rightarrow>
                          (let w7 = create_scale w6 time_ds ''time'';
                               w8 = attach_scale w7 p 1 time_ds;
                               w9 = set_attr w8 time_ds ''unit'' (AStr (the (tunit data_object)))
                           in (Inr p, w9))))))"

definition add_nonuniform_nan ::
  "writer \<Rightarrow> path \<Rightarrow> (sample list \<times> sample list) data_object \<Rightarrow> bool \<Rightarrow> path res" where
  "add_nonuniform_nan w source_ds data_object fixed =
     (if dialect w \<noteq> NANPADDED then (Inl AssertionError, w)
      else
        (let popname = last source_ds in
         case require_subgroup w (data_grp NONUNIFORM) popname of
           (Inl e, w1) \<Rightarrow> (Inl e, w1)
         | (Inr ngrp, w1) \<Rightarrow>
             (case ds_items w1 source_ds of
                Inl e \<Rightarrow> (Inl e, w1)
              | Inr ids \<Rightarrow>
                  (if \<not> match_datasets ids (get_sources data_object) then (Inl KeyError_sources, w1)
                   else
                     (case get_all data_object ids of
                        Inl e \<Rightarrow> (Inl e, w1)
                      | Inr ordered_data \<Rightarrow>
                          (let tsname = popname @ ''_'' @ name data_object;
                               time_ds = time_dim @ [tsname];
                               cols = map (\<lambda>x. length (fst x)) ordered_data;
                               p = ngrp @ [name data_object];
                               create = (\<lambda>w'. case add_nonuniform_nan_create w' source_ds ngrp time_ds
                                                       data_object cols fixed of
                                                  (Inl e, w2) \<Rightarrow> (Inl e, w2)
                                                | (Inr _, w2) \<Rightarrow> (Inr (replicate (length cols) 0, cols), w2)) in
                           case (case h5_getitem w1 p of
                                   Inl _ \<Rightarrow> create w1
                                 | Inr n \<Rightarrow>
                                     (case add_nonuniform_nan_try w1 p time_ds n cols of
                                        (Inl e, w2) \<Rightarrow> (Inl e, w2)
                                      | (Inr None, w2) \<Rightarrow> create w2
                                      | (Inr (Some se), w2) \<Rightarrow> (Inr se, w2))) of
                             (Inl e, w2) \<Rightarrow> (Inl e, w2)
                           | (Inr (starts, ends), w2) \<Rightarrow>
                               (case nonuniform_nan_loop w2 p time_ds data_object starts ends
                                       (enumerate_py ids) of
                                  (Inl e, w3) \<Rightarrow> (Inl e, w3)
                                | (Inr _, w3) \<Rightarrow> (Inr p, w3))))))))"


subsection \<open>Event data, one dataset per source\<close>

text \<open>\<^verbatim>\<open>source_ds['source']\<close>: the source ids of a compound mapping dataset.\<close>

definition ds_sources :: "writer \<Rightarrow> path \<Rightarrow> error + string list" where
  "ds_sources w source_ds =
     (case nodes w source_ds of
        Some (Dataset d) \<Rightarrow> (case content d of SrcData xs \<Rightarrow> Inr (map fst xs) | _ \<Rightarrow> Inl H5_type)
      | _ \<Rightarrow> Inl H5_type)"

text \<open>\<^verbatim>\<open>source_ds.name.split('/')[-2]\<close>: the last but one component of the name.\<close>

definition second_last :: "path \<Rightarrow> string" where
  "second_last p = (if length p < 2 then [] else p ! (length p - 2))"

text \<open>
  \<^verbatim>\<open>dset.resize((oldlen + len(data),)); dset[oldlen:] = data\<close> on a 1-D dataset.
\<close>

definition append_1d :: "writer \<Rightarrow> path \<Rightarrow> node \<Rightarrow> sample list \<Rightarrow> path res" where
  "append_1d w p n data =
     (case n of
        Group _ \<Rightarrow> (Inl H5_type, w)
      | Dataset d \<Rightarrow>
          (case content d of
             Arr1 xs \<Rightarrow>
               (case maxshape d of
                  None \<Rightarrow> (Inl H5_resize, w)
                | Some ms \<Rightarrow>
                    (if length ms = 1 \<and> (case ms ! 0 of None \<Rightarrow> True | Some m \<Rightarrow> length xs + length data \<le> m)
                     then (Inr p, w\<lparr>nodes := (nodes w)(p \<mapsto> Dataset (d\<lparr>content := Arr1 (xs @ data)\<rparr>))\<rparr>)
                     else (Inl H5_resize, w)))
           | _ \<Rightarrow> (Inl H5_type, w)))"

text \<open>\<^verbatim>\<open>source_ds[iii] = (source, dset.ref)\<close>.\<close>

definition set_src_ref :: "writer \<Rightarrow> path \<Rightarrow> nat \<Rightarrow> string \<Rightarrow> path \<Rightarrow> writer" where
  "set_src_ref w source_ds iii source r =
     upd_dataset w source_ds
       (\<lambda>d. case content d of
               SrcData xs \<Rightarrow> d\<lparr>content := SrcData (xs[iii := (source, Some r)])\<rparr>
             | _ \<Rightarrow> d)"

text \<open>The \<^verbatim>\<open>except KeyError\<close> block inside the loop of \<^verbatim>\<open>add_event_1d\<close>.\<close>

definition add_event_1d_create ::
  "writer \<Rightarrow> path \<Rightarrow> path \<Rightarrow> (sample list) data_object \<Rightarrow> nat \<Rightarrow> string \<Rightarrow> string
     \<Rightarrow> sample list \<Rightarrow> bool \<Rightarrow> path res" where
  "add_event_1d_create w source_ds datagrp data_object iii source dsetname data fixed =
     (if unit data_object = None then (Inl ValueError_unit, w)
      else
        (let maxrows = (if fixed then Some (length data) else None) in
         case create_dataset w (datagrp @ [dsetname])
                (new_dataset (Arr1 data) (Some [maxrows]) (Val 0)) of
           (Inl e, w1) \<Rightarrow> (Inl e, w1)
         | (Inr dset, w1) \<Rightarrow>
             (let w2 = set_attr w1 dset ''unit'' (AStr (the (unit data_object)));
                  w3 = set_attr w2 dset ''field'' (AStr (field data_object));
                  w4 = set_attr w3 dset ''source'' (AStr source);
                  w5 = set_src_ref w4 source_ds iii source dset
              in (Inr dset, w5))))"

fun event_1d_loop ::
  "writer \<Rightarrow> path \<Rightarrow> path \<Rightarrow> (sample list) data_object \<Rightarrow> (string \<times> string) list \<Rightarrow> bool
     \<Rightarrow> (nat \<times> string) list \<Rightarrow> (string \<times> path) list \<Rightarrow> ((string \<times> path) list) res" where
  "event_1d_loop w source_ds datagrp data_object source_name_dict fixed [] ret = (Inr ret, w)"
| "event_1d_loop w source_ds datagrp data_object source_name_dict fixed ((iii, source) # rest) ret =
     (case get_data data_object source of
        Inl e \<Rightarrow> (Inl e, w)
      | Inr data \<Rightarrow>
          (case map_of source_name_dict source of
             None \<Rightarrow> (Inl (KeyError_source source), w)
           | Some dsetname \<Rightarrow>
               (case (case h5_getitem w (datagrp @ [dsetname]) of
                        Inr n \<Rightarrow> append_1d w (datagrp @ [dsetname]) n data
                      | Inl _ \<Rightarrow>
                          add_event_1d_create w source_ds datagrp data_object iii source dsetname data fixed) of
                  (Inl e, w1) \<Rightarrow> (Inl e, w1)
                | (Inr dset, w1) \<Rightarrow>
                    event_1d_loop w1 source_ds datagrp data_object source_name_dict fixed rest
                      (ret @ [(source, dset)]))))"

definition add_event_1d ::
  "writer \<Rightarrow> path \<Rightarrow> (sample list) data_object \<Rightarrow> (string \<times> string) list \<Rightarrow> bool
     \<Rightarrow> ((string \<times> path) list) res" where
  "add_event_1d w source_ds data_object source_name_dict fixed =
     (if \<not> (dialect w = ONED \<or> dialect w = NUREGULAR) then (Inl AssertionError, w)
      else
        (let popname = second_last source_ds in
         case require_subgroup w (data_grp EVENT) popname of
           (Inl e, w1) \<Rightarrow> (Inl e, w1)
         | (Inr ngrp, w1) \<Rightarrow>
             (if \<not> match_datasets (map fst source_name_dict) (get_sources data_object)
              then (Inl AssertionError, w1)
              else
                (case require_group w1 ngrp (name data_object) of
                   (Inl e, w2) \<Rightarrow> (Inl e, w2)
                 | (Inr datagrp, w2) \<Rightarrow>
                     (let w3 = set_attr w2 datagrp ''source'' (ARef source_ds) in
                      case ds_sources w3 source_ds of
                        Inl e \<Rightarrow> (Inl e, w3)
                      | Inr srcs \<Rightarrow>
                          event_1d_loop w3 source_ds datagrp data_object source_name_dict fixed
                            (enumerate_py srcs) [])))))"

section \<open>Source mappings and the link to the model tree\<close>

text \<open>Python's \<^verbatim>\<open>str.split(sep)\<close> and \<^verbatim>\<open>sep.join(tokens)\<close> for a one-character separator.\<close>

fun py_split :: "char \<Rightarrow> string \<Rightarrow> string list" where
  "py_split sep [] = [[]]"
| "py_split sep (c # cs) =
     (if c = sep then [] # py_split sep cs
      else (case py_split sep cs of [] \<Rightarrow> [[c]] | t # ts \<Rightarrow> (c # t) # ts))"

fun py_join :: "char \<Rightarrow> string list \<Rightarrow> string" where
  "py_join sep [] = []"
| "py_join sep [t] = t"
| "py_join sep (t # ts) = t @ sep # py_join sep ts"

fun lcp :: "'a list \<Rightarrow> 'a list \<Rightarrow> 'a list" where
  "lcp (x # xs) (y # ys) = (if x = y then x # lcp xs ys else [])"
| "lcp _ _ = []"

text \<open>
  Modelled from the spec: \<^verbatim>\<open>common_prefix\<close> comes from the model module, which is not
  part of the sources at hand. The spec has it compute the longest common path prefix
  across all resolved paths, the closest common ancestor node; the paths are compared
  component by component.
\<close>

definition common_prefix :: "string list \<Rightarrow> string" where
  "common_prefix paths =
     (case map (py_split CHR ''/'') paths of
        [] \<Rightarrow> []
      | t # ts \<Rightarrow> py_join CHR ''/'' (fold lcp ts t))"

text \<open>
  \<^verbatim>\<open>group[name]\<close> for a name given as a string relative to the group: the empty name
  is refused, otherwise the name is followed component by component.
\<close>

definition h5_open :: "writer \<Rightarrow> path \<Rightarrow> string \<Rightarrow> error + path \<times> node" where
  "h5_open w grp nm =
     (if nm = [] then Inl H5_noname
      else
        (let p = grp @ filter (\<lambda>t. t \<noteq> []) (py_split CHR ''/'' nm) in
         case h5_getitem w p of Inl e \<Rightarrow> Inl e | Inr n \<Rightarrow> Inr (p, n)))"

text \<open>\<^verbatim>\<open>[ref for ref in obj.attrs.get(key, [])]\<close>.\<close>

definition attr_refs :: "(string \<rightharpoonup> attr) \<Rightarrow> string \<Rightarrow> error + path list" where
  "attr_refs a k =
     (case a k of
        None \<Rightarrow> Inr []
      | Some (ARefs rs) \<Rightarrow> Inr rs
      | Some _ \<Rightarrow> Inl H5_type)"

text \<open>\<^verbatim>\<open>[id_path_dict[uid] for uid in idlist]\<close>.\<close>

fun lookup_paths :: "(string \<times> string) list \<Rightarrow> string list \<Rightarrow> error + string list" where
  "lookup_paths d [] = Inr []"
| "lookup_paths d (uid # uids) =
     (case map_of d uid of
        None \<Rightarrow> Inl (KeyError_source uid)
      | Some p \<Rightarrow> (case lookup_paths d uids of Inl e \<Rightarrow> Inl e | Inr ps \<Rightarrow> Inr (p # ps)))"

text \<open>\<^verbatim>\<open>len(id_path_dict)\<close>: the number of keys.\<close>

definition dict_len :: "(string \<times> string) list \<Rightarrow> nat" where
  "dict_len d = length (remdups (map fst d))"

text \<open>The id list of a mapping dataset, plain or compound.\<close>

definition mapds_idlist :: "writer \<Rightarrow> path \<Rightarrow> error + string list" where
  "mapds_idlist w mapds =
     (case nodes w mapds of
        Some (Dataset d) \<Rightarrow>
          (case content d of
             Strs ids \<Rightarrow> Inr ids
           | SrcData xs \<Rightarrow> Inr (map fst xs)
           | _ \<Rightarrow> Inl H5_type)
      | _ \<Rightarrow> Inl H5_type)"

text \<open>
  The body of the \<^verbatim>\<open>try\<close> block of \<^verbatim>\<open>_link_map_model\<close> after the node \<open>source\<close> was
  found. The list written to the \<^verbatim>\<open>model\<close> attribute of the mapping starts from the
  mapping's \<^verbatim>\<open>map\<close> attribute, as the source has it.
\<close>

definition link_found :: "writer \<Rightarrow> path \<Rightarrow> path \<Rightarrow> node \<Rightarrow> unit res" where
  "link_found w mapds source n =
     (case attr_refs (node_attrs n) ''map'' of
        Inl e \<Rightarrow> (Inl e, w)
      | Inr refs \<Rightarrow>
          (let w1 = set_attr w source ''map'' (ARefs (refs @ [mapds])) in
           case h5_getitem w1 mapds of
             Inl e \<Rightarrow> (Inl e, w1)
           | Inr m \<Rightarrow>
               (case attr_refs (node_attrs m) ''map'' of
                  Inl e \<Rightarrow> (Inl e, w1)
                | Inr refs2 \<Rightarrow> (Inr (), set_attr w1 mapds ''model'' (ARefs (refs2 @ [source]))))))"

text \<open>
  \<^verbatim>\<open>_link_map_model\<close>. The lookup of the ids in the dictionary is outside the \<^verbatim>\<open>try\<close>
  block; inside it, a \<^verbatim>\<open>KeyError\<close> is caught and its message printed.
\<close>

definition link_map_model :: "writer \<Rightarrow> path \<Rightarrow> unit res" where
  "link_map_model w mapds =
     (case mapds_idlist w mapds of
        Inl e \<Rightarrow> (Inl e, w)
      | Inr idlist \<Rightarrow>
          (if dict_len (id_path_dict w) > 1 then
             (case lookup_paths (id_path_dict w) idlist of
                Inl e \<Rightarrow> (Inl e, w)
              | Inr paths \<Rightarrow>
                  (let prefix = drop (length ''/modeltree/'') (common_prefix paths) in
                   case h5_open w modeltree prefix of
                     Inl (KeyError_missing p) \<Rightarrow> (Inr (), w\<lparr>log := log w @ [KeyError_missing p]\<rparr>)
                   | Inl e \<Rightarrow> (Inl e, w)
                   | Inr (source, n) \<Rightarrow> link_found w mapds source n))
           else (Inr (), w)))"

text \<open>The base group \<^verbatim>\<open>self.mapping.require_group(stype)\<close> under \<^verbatim>\<open>/map\<close>.\<close>

definition mapping_base :: "writer \<Rightarrow> string \<Rightarrow> path res" where
  "mapping_base w stype = require_subgroup w [''map''] stype"

text \<open>Creating the mapping dataset and linking it, the common end of the declarations.\<close>

definition create_and_link :: "writer \<Rightarrow> path \<Rightarrow> content \<Rightarrow> path res" where
  "create_and_link w p c =
     (case create_dataset w p (new_dataset c None (Val 0)) of
        (Inl e, w1) \<Rightarrow> (Inl e, w1)
      | (Inr src_ds, w1) \<Rightarrow>
          (case link_map_model w1 src_ds of
             (Inl e, w2) \<Rightarrow> (Inl e, w2)
           | (Inr _, w2) \<Rightarrow> (Inr src_ds, w2)))"

text \<open>
  \<^verbatim>\<open>add_uniform_ds\<close> opens \<^verbatim>\<open>self.mapping[UNIFORM]\<close> and creates the group on
  \<^verbatim>\<open>KeyError\<close>.
\<close>

definition add_uniform_ds :: "writer \<Rightarrow> string \<Rightarrow> string list \<Rightarrow> path res" where
  "add_uniform_ds w nm idlist =
     (if length idlist = 0 then (Inl ValueError_idlist, w)
      else
        (case (case h5_getitem w (mapping_grp UNIFORM) of
                 Inr (Group _) \<Rightarrow> (Inr (mapping_grp UNIFORM), w)
               | Inr (Dataset _) \<Rightarrow> (Inl H5_type, w)
               | Inl _ \<Rightarrow> require_subgroup w [''map''] UNIFORM) of
           (Inl e, w1) \<Rightarrow> (Inl e, w1)
         | (Inr base, w1) \<Rightarrow> create_and_link w1 (base @ [nm]) (Strs idlist)))"

definition add_nonuniform_ds :: "writer \<Rightarrow> string \<Rightarrow> string list \<Rightarrow> path res" where
  "add_nonuniform_ds w popname idlist =
     (case mapping_base w NONUNIFORM of
        (Inl e, w1) \<Rightarrow> (Inl e, w1)
      | (Inr base, w1) \<Rightarrow>
          (if dialect w1 = ONED then (Inl AssertionError, w1)
           else if \<not> length idlist > 0 then (Inl AssertionError, w1)
           else create_and_link w1 (base @ [popname]) (Strs idlist)))"

definition add_nonuniform_ds_1d :: "writer \<Rightarrow> string \<Rightarrow> string \<Rightarrow> string list \<Rightarrow> path res" where
  "add_nonuniform_ds_1d w popname varname idlist =
     (case mapping_base w NONUNIFORM of
        (Inl e, w1) \<Rightarrow> (Inl e, w1)
      | (Inr base, w1) \<Rightarrow>
          (if dialect w1 \<noteq> ONED then (Inl AssertionError, w1)
           else if \<not> length idlist > 0 then (Inl AssertionError, w1)
           else
             (case require_group w1 base popname of
                (Inl e, w2) \<Rightarrow> (Inl e, w2)
              | (Inr grp, w2) \<Rightarrow>
                  create_and_link w2 (grp @ [varname]) (SrcData (map (\<lambda>i. (i, None)) idlist)))))"

definition add_event_ds :: "writer \<Rightarrow> string \<Rightarrow> string list \<Rightarrow> path res" where
  "add_event_ds w nm idlist =
     (case mapping_base w EVENT of
        (Inl e, w1) \<Rightarrow> (Inl e, w1)
      | (Inr base, w1) \<Rightarrow>
          (if \<not> length idlist > 0 then (Inl AssertionError, w1)
           else if \<not> (dialect w1 = VLEN \<or> dialect w1 = NANPADDED) then (Inl AssertionError, w1)
           else create_and_link w1 (base @ [nm]) (Strs idlist)))"

definition add_event_ds_1d :: "writer \<Rightarrow> string \<Rightarrow> string \<Rightarrow> string list \<Rightarrow> path res" where
  "add_event_ds_1d w popname varname idlist =
     (case mapping_base w EVENT of
        (Inl e, w1) \<Rightarrow> (Inl e, w1)
      | (Inr base, w1) \<Rightarrow>
          (if \<not> length idlist > 0 then (Inl AssertionError, w1)
           else if \<not> (dialect w1 = ONED \<or> dialect w1 = NUREGULAR) then (Inl AssertionError, w1)
           else
             (case require_group w1 base popname of
                (Inl e, w2) \<Rightarrow> (Inl e, w2)
              | (Inr grp, w2) \<Rightarrow>
                  create_and_link w2 (grp @ [varname]) (SrcData (map (\<lambda>i. (i, None)) idlist)))))"

definition add_static_ds :: "writer \<Rightarrow> string \<Rightarrow> string list \<Rightarrow> path res" where
  "add_static_ds w popname idlist =
     (if length idlist = 0 then (Inl ValueError_idlist, w)
      else
        (case mapping_base w STATIC of
           (Inl e, w1) \<Rightarrow> (Inl e, w1)
         | (Inr base, w1) \<Rightarrow> create_and_link w1 (base @ [popname]) (Strs idlist)))"

text \<open>
  The file as \<^verbatim>\<open>__init__\<close> leaves it when it is opened empty: the groups \<^verbatim>\<open>/data\<close>,
  \<^verbatim>\<open>/model\<close>, \<^verbatim>\<open>/map\<close>, \<^verbatim>\<open>/map/time\<close>, \<^verbatim>\<open>/model/modeltree\<close> and one group per sampling
  type under \<^verbatim>\<open>/data\<close> and \<^verbatim>\<open>/map\<close>; the model tree holds its root only.
\<close>

definition SAMPLING_TYPES :: "string list" where
  "SAMPLING_TYPES = [UNIFORM, NONUNIFORM, EVENT, STATIC]"

definition init_groups :: "path list" where
  "init_groups =
     [[''data''], [''model''], [''map''], time_dim, modeltree]
     @ map data_grp SAMPLING_TYPES @ map mapping_grp SAMPLING_TYPES"

definition init :: "dialect \<Rightarrow> writer" where
  "init dl =
     \<lparr>dialect = dl,
      nodes = (\<lambda>p. if p \<in> set init_groups then Some (Group Map.empty) else None),
      id_path_dict = [(''modeltree'', ''/modeltree'')],
      log = []\<rparr>"


section \<open>Notions used in the statements\<close>

text \<open>
  What a failed call may leave behind at most: the store of \<open>w'\<close> is the store of \<open>w\<close>
  but for groups without any attribute that were absent in \<open>w\<close>. No dataset was created
  or changed and no attribute was written.
\<close>

definition only_groups_added :: "writer \<Rightarrow> writer \<Rightarrow> bool" where
  "only_groups_added w w' \<longleftrightarrow>
     (\<forall>p. nodes w' p = nodes w p \<or> (nodes w p = None \<and> nodes w' p = Some (Group Map.empty)))"

text \<open>The contents of the dataset at a path, and the attributes of the object at a path.\<close>

definition content_at :: "writer \<Rightarrow> path \<Rightarrow> content option" where
  "content_at w p = (case nodes w p of Some (Dataset d) \<Rightarrow> Some (content d) | _ \<Rightarrow> None)"

definition attrs_at :: "writer \<Rightarrow> path \<Rightarrow> (string \<rightharpoonup> attr) option" where
  "attrs_at w p = (case nodes w p of Some n \<Rightarrow> Some (node_attrs n) | None \<Rightarrow> None)"

text \<open>
  The data group of a sampling type exists, and the place of the population group under
  it is not taken by a dataset: \<^verbatim>\<open>self.data[stype].require_group(popname)\<close> goes through.
\<close>

definition base_ready :: "writer \<Rightarrow> string \<Rightarrow> string \<Rightarrow> bool" where
  "base_ready w stype popname \<longleftrightarrow>
     (case nodes w (data_grp stype) of Some (Group _) \<Rightarrow> True | _ \<Rightarrow> False) \<and>
     (case nodes w (data_grp stype @ [popname]) of Some (Dataset _) \<Rightarrow> False | _ \<Rightarrow> True)"

subsection \<open>Example stores\<close>

text \<open>A fresh file in which the population \<open>pop\<close> with the sources \<open>a\<close>, \<open>b\<close> was declared.\<close>

definition ex_uniform :: writer where
  "ex_uniform = snd (add_uniform_ds (init VLEN) ''pop'' [''a'', ''b''])"

text \<open>A batch whose source list names \<open>a\<close> twice.\<close>

definition ex_batch_dup :: "(sample list) data_object" where
  "ex_batch_dup =
     \<lparr>name = ''Vm'', unit = Some ''mV'', tunit = Some ''ms'', field = ''Vm'', dt = Some 1,
      sampling_times = [],
      src_data = [(''a'', [Val 1, Val 2]), (''b'', [Val 3, Val 4]), (''a'', [Val 5, Val 6])]\<rparr>"

text \<open>
  The three \<^verbatim>\<open>ValueError\<close>s that report missing metadata, and a call that was
  rejected with one of them without creating or changing an array or an attribute.
\<close>

definition MissingMetadata :: "error \<Rightarrow> bool" where
  "MissingMetadata e \<longleftrightarrow> e = ValueError_dt \<or> e = ValueError_unit \<or> e = ValueError_tunit"

definition rejected :: "writer \<Rightarrow> 'r res \<Rightarrow> bool" where
  "rejected w r \<longleftrightarrow>
     (case r of (Inl e, w') \<Rightarrow> MissingMetadata e \<and> only_groups_added w w' | (Inr _, _) \<Rightarrow> False)"

text \<open>
  A call that reaches its creation path: the population group can be opened, the batch
  passes the comparison with the mapping, and the target array does not exist yet.
\<close>

definition first_write :: "writer \<Rightarrow> path \<Rightarrow> string \<Rightarrow> 'd data_object \<Rightarrow> bool" where
  "first_write w source_ds stype b \<longleftrightarrow>
     base_ready w stype (last source_ds) \<and>
     (case ds_items w source_ds of Inr ids \<Rightarrow> match_datasets ids (get_sources b) | Inl _ \<Rightarrow> False) \<and>
     nodes w (data_grp stype @ [last source_ds, name b]) = None"

text \<open>The rows of the batch in mapping order as \<^verbatim>\<open>np.vstack\<close> returns them, if it does.\<close>

definition stacked :: "writer \<Rightarrow> path \<Rightarrow> (sample list) data_object \<Rightarrow> sample list list option" where
  "stacked w source_ds b =
     (case ds_items w source_ds of
        Inl _ \<Rightarrow> None
      | Inr ids \<Rightarrow>
          (case get_all b ids of
             Inl _ \<Rightarrow> None
           | Inr ordered_data \<Rightarrow>
               (case vstack ordered_data of Inl _ \<Rightarrow> None | Inr data \<Rightarrow> Some data)))"

text \<open>One attribute of the object at a path.\<close>

definition attr_at :: "writer \<Rightarrow> path \<Rightarrow> string \<Rightarrow> attr option" where
  "attr_at w p k = (case nodes w p of Some n \<Rightarrow> node_attrs n k | None \<Rightarrow> None)"

text \<open>
  Fresh files with the population \<open>pop\<close> of the sources \<open>a\<close>, \<open>b\<close> declared under
  every sampling type the dialect allows, and a fresh file of the one-dataset-per-source
  dialect with the event mapping \<open>pop/spike\<close> of the single source \<open>a\<close>.
\<close>

definition ex_vlen :: writer where
  "ex_vlen =
     snd (add_static_ds
       (snd (add_event_ds
         (snd (add_nonuniform_ds
           (snd (add_uniform_ds (init VLEN) ''pop'' [''a'', ''b'']))
           ''pop'' [''a'', ''b'']))
         ''pop'' [''a'', ''b'']))
       ''pop'' [''a'', ''b''])"

definition ex_nan :: writer where
  "ex_nan =
     snd (add_event_ds
       (snd (add_nonuniform_ds (init NANPADDED) ''pop'' [''a'', ''b'']))
       ''pop'' [''a'', ''b''])"

definition ex_event_1d :: writer where
  "ex_event_1d = snd (add_event_ds_1d (init ONED) ''pop'' ''spike'' [''a''])"

text \<open>Batches without unit, time unit and sampling interval.\<close>

definition ex_batch_bare :: "(sample list) data_object" where
  "ex_batch_bare =
     \<lparr>name = ''Vm'', unit = None, tunit = None, field = ''Vm'', dt = None,
      sampling_times = [Val 0, Val 1],
      src_data = [(''b'', [Val 3, Val 4]), (''a'', [Val 1, Val 2])]\<rparr>"

definition ex_batch_bare2 :: "(sample list \<times> sample list) data_object" where
  "ex_batch_bare2 =
     \<lparr>name = ''Vm'', unit = None, tunit = None, field = ''Vm'', dt = None,
      sampling_times = [],
      src_data = [(''b'', ([Val 3, Val 4], [Val 0, Val 1])), (''a'', ([Val 1], [Val 0]))]\<rparr>"

text \<open>Event batches for the mapping \<open>pop/spike\<close>: one with a source too many, one without unit.\<close>

definition ex_batch_ab :: "(sample list) data_object" where
  "ex_batch_ab =
     \<lparr>name = ''spike'', unit = Some ''s'', tunit = None, field = ''spike'', dt = None,
      sampling_times = [],
      src_data = [(''a'', [Val 1]), (''b'', [Val 2])]\<rparr>"

definition ex_batch_a_nounit :: "(sample list) data_object" where
  "ex_batch_a_nounit =
     \<lparr>name = ''spike'', unit = None, tunit = None, field = ''spike'', dt = None,
      sampling_times = [],
      src_data = [(''a'', [Val 1])]\<rparr>"

text \<open>
  The operations that keep one array per population and field do compare the batch with
  the mapping. When the sets differ, the call ends in the source-mismatch \<^verbatim>\<open>KeyError\<close>
  and leaves at most the empty population group behind.
\<close>

definition mismatch_rejected :: "writer \<Rightarrow> 'r res \<Rightarrow> bool" where
  "mismatch_rejected w r \<longleftrightarrow>
     (case r of (Inl e, w') \<Rightarrow> e = KeyError_sources \<and> only_groups_added w w' | (Inr _, _) \<Rightarrow> False)"

text \<open>Two batches of the shared-time dialect for the population \<open>pop\<close>, two samples each.\<close>

definition ex_batch_reg1 :: "(sample list) data_object" where
  "ex_batch_reg1 =
     \<lparr>name = ''Vm'', unit = Some ''mV'', tunit = Some ''ms'', field = ''Vm'', dt = None,
      sampling_times = [Val 0, Val 1],
      src_data = [(''a'', [Val 1, Val 2]), (''b'', [Val 3, Val 4])]\<rparr>"

definition ex_batch_reg2 :: "(sample list) data_object" where
  "ex_batch_reg2 =
     \<lparr>name = ''Vm'', unit = Some ''mV'', tunit = Some ''ms'', field = ''Vm'', dt = None,
      sampling_times = [Val 2, Val 3],
      src_data = [(''a'', [Val 5, Val 6]), (''b'', [Val 7, Val 8])]\<rparr>"

definition ex_regular1 :: writer where
  "ex_regular1 = snd (add_nonuniform_regular ex_vlen [''map'', ''nonuniform'', ''pop''] ex_batch_reg1 False)"

definition ex_regular2 :: writer where
  "ex_regular2 = snd (add_nonuniform_regular ex_regular1 [''map'', ''nonuniform'', ''pop''] ex_batch_reg2 False)"

text \<open>The object at a path is a group.\<close>

definition is_group :: "writer \<Rightarrow> path \<Rightarrow> bool" where
  "is_group w p = (case nodes w p of Some (Group _) \<Rightarrow> True | _ \<Rightarrow> False)"

text \<open>
  The place in the file of the closest common ancestor of the sources \<open>idlist\<close>, as
  \<^verbatim>\<open>_link_map_model\<close> computes it, and the situation that all sources resolve, the
  ancestor is not the root of the model tree, and the file has no object at that place.
\<close>

definition ancestor_prefix :: "writer \<Rightarrow> string list \<Rightarrow> string" where
  "ancestor_prefix w idlist =
     (case lookup_paths (id_path_dict w) idlist of
        Inl _ \<Rightarrow> []
      | Inr paths \<Rightarrow> drop (length ''/modeltree/'') (common_prefix paths))"

definition ancestor_path :: "writer \<Rightarrow> string list \<Rightarrow> path" where
  "ancestor_path w idlist =
     modeltree @ filter (\<lambda>t. t \<noteq> []) (py_split CHR ''/'' (ancestor_prefix w idlist))"

definition ancestor_missing :: "writer \<Rightarrow> string list \<Rightarrow> bool" where
  "ancestor_missing w idlist \<longleftrightarrow>
     dict_len (id_path_dict w) > 1 \<and>
     (case lookup_paths (id_path_dict w) idlist of Inl _ \<Rightarrow> False | Inr _ \<Rightarrow> True) \<and>
     ancestor_prefix w idlist \<noteq> [] \<and>
     (case nodes w (ancestor_path w idlist) of None \<Rightarrow> True | Some _ \<Rightarrow> False)"

text \<open>The group \<^verbatim>\<open>/map\<close> and the group of a sampling type under it exist.\<close>

definition map_ready :: "writer \<Rightarrow> string \<Rightarrow> bool" where
  "map_ready w stype \<longleftrightarrow> is_group w [''map''] \<and> is_group w (mapping_grp stype)"

text \<open>The writer after a declaration whose link was skipped: the mapping dataset and the log entry.\<close>

definition declared_unlinked :: "writer \<Rightarrow> path \<Rightarrow> content \<Rightarrow> string list \<Rightarrow> writer" where
  "declared_unlinked w p c idlist =
     w\<lparr>nodes := (nodes w)(p \<mapsto> Dataset (new_dataset c None (Val 0))),
       log := log w @ [KeyError_missing (ancestor_path w idlist)]\<rparr>"

text \<open>
  A fresh file whose in-memory model tree holds the components \<open>a\<close> and \<open>b\<close> under
  \<^verbatim>\<open>/modeltree/A\<close>, none of them written to the file yet.
\<close>

definition ex_unwritten :: writer where
  "ex_unwritten =
     (init VLEN)\<lparr>id_path_dict :=
        [(''modeltree'', ''/modeltree''), (''A'', ''/modeltree/A''),
         (''a'', ''/modeltree/A/a''), (''b'', ''/modeltree/A/b'')]\<rparr>"

text \<open>
  A file whose model tree holds the components \<open>A\<close>, \<open>A/B\<close>, \<open>A/B/C\<close> and \<open>A/B/D\<close>, each
  written as a group, with the ids \<open>c\<close> and \<open>d\<close> for the two leaves.
\<close>

definition ex_tree :: writer where
  "ex_tree =
     (init VLEN)\<lparr>
       nodes := (nodes (init VLEN))
         ([''model'', ''modeltree'', ''A''] \<mapsto> Group [''uid'' \<mapsto> AStr ''A''],
          [''model'', ''modeltree'', ''A'', ''B''] \<mapsto> Group [''uid'' \<mapsto> AStr ''B''],
          [''model'', ''modeltree'', ''A'', ''B'', ''C''] \<mapsto> Group [''uid'' \<mapsto> AStr ''c''],
          [''model'', ''modeltree'', ''A'', ''B'', ''D''] \<mapsto> Group [''uid'' \<mapsto> AStr ''d'']),
       id_path_dict :=
         [(''modeltree'', ''/modeltree''), (''A'', ''/modeltree/A''), (''B'', ''/modeltree/A/B''),
          (''c'', ''/modeltree/A/B/C''), (''d'', ''/modeltree/A/B/D'')]\<rparr>"

text \<open>The same file after the population \<open>pop\<close> of the sources \<open>c\<close>, \<open>d\<close> was declared.\<close>

definition ex_linked :: writer where
  "ex_linked = snd (add_uniform_ds ex_tree ''pop'' [''c'', ''d''])"


text \<open>
  The rows of a ragged array after the rows \<open>k\<close>, \<open>k + 1\<close>, ... were extended by the
  chunks \<open>xs\<close>, one after the other.
\<close>

fun extend_rows :: "'a list list \<Rightarrow> nat \<Rightarrow> 'a list list \<Rightarrow> 'a list list" where
  "extend_rows rs k [] = rs"
| "extend_rows rs k (x # xs) = extend_rows (rs[k := rs ! k @ x]) (Suc k) xs"

text \<open>The population group of a sampling type exists under \<^verbatim>\<open>/data\<close>.\<close>

definition pop_ready :: "writer \<Rightarrow> string \<Rightarrow> string \<Rightarrow> bool" where
  "pop_ready w stype popname \<longleftrightarrow> is_group w (data_grp stype) \<and> is_group w (data_grp stype @ [popname])"

text \<open>Two writers that differ at most in the objects at the paths \<open>S\<close>.\<close>

definition same_except :: "path set \<Rightarrow> writer \<Rightarrow> writer \<Rightarrow> bool" where
  "same_except S w w' \<longleftrightarrow>
     dialect w' = dialect w \<and> id_path_dict w' = id_path_dict w \<and> log w' = log w \<and>
     (\<forall>q. q \<notin> S \<longrightarrow> nodes w' q = nodes w q)"

text \<open>The chunks of a batch in the order of the ids, and the two halves of (data, time) chunks.\<close>

definition chunks :: "'d data_object \<Rightarrow> string list \<Rightarrow> 'd list" where
  "chunks b ids = map (\<lambda>s. the (map_of (src_data b) s)) ids"


text \<open>
  The state in which a ragged array of the population behind \<open>source_ds\<close> exists at \<open>p\<close>
  with the rows \<open>rs\<close>, one per source.
\<close>

definition vlen_state :: "writer \<Rightarrow> path \<Rightarrow> string \<Rightarrow> string list \<Rightarrow> path \<Rightarrow> sample list list \<Rightarrow> bool" where
  "vlen_state w source_ds stype ids p rs \<longleftrightarrow>
     dialect w = VLEN \<and> pop_ready w stype (last source_ds) \<and> ds_items w source_ds = Inr ids \<and>
     content_at w p = Some (VLenArr rs) \<and> length rs = length ids"


text \<open>Two event batches and two batches of (data, time) chunks for the sources \<open>a\<close>, \<open>b\<close>.\<close>

definition ex_spikes1 :: "(sample list) data_object" where
  "ex_spikes1 =
     \<lparr>name = ''spike'', unit = Some ''s'', tunit = None, field = ''spike'', dt = None,
      sampling_times = [],
      src_data = [(''a'', [Val 1]), (''b'', [Val 2, Val 3])]\<rparr>"

definition ex_spikes2 :: "(sample list) data_object" where
  "ex_spikes2 =
     \<lparr>name = ''spike'', unit = None, tunit = None, field = ''spike'', dt = None,
      sampling_times = [],
      src_data = [(''b'', [Val 4]), (''a'', [Val 5, Val 6])]\<rparr>"



text \<open>A 2-D dataset may be resized to \<open>n\<close> columns.\<close>

definition can_grow :: "dataset \<Rightarrow> nat \<Rightarrow> bool" where
  "can_grow d n \<longleftrightarrow>
     (case maxshape d of
        None \<Rightarrow> False
      | Some ms \<Rightarrow> length ms = 2 \<and> (case ms ! 1 of None \<Rightarrow> True | Some m \<Rightarrow> n \<le> m))"

text \<open>The rows of a 2-D array after \<^verbatim>\<open>append_columns\<close> put the block \<open>data\<close> behind them.\<close>

definition appended_rows :: "dataset \<Rightarrow> sample list list \<Rightarrow> sample list list \<Rightarrow> sample list list" where
  "appended_rows d rs data =
     map (\<lambda>(r, x). take (ncols rs) (resize_row (fillvalue d) (ncols rs + ncols data) r) @ x) (zip rs data)"

text \<open>
  The state in which the 2-D array of a population and field exists as the dataset \<open>d\<close>,
  has one row per source and may grow by the columns of the batch.
\<close>

definition array_state ::
  "writer \<Rightarrow> path \<Rightarrow> string \<Rightarrow> (sample list) data_object \<Rightarrow> dataset \<Rightarrow> sample list list \<Rightarrow> bool" where
  "array_state w source_ds stype b d data \<longleftrightarrow>
     pop_ready w stype (last source_ds) \<and>
     (case ds_items w source_ds of Inr ids \<Rightarrow> match_datasets ids (get_sources b) | Inl _ \<Rightarrow> False) \<and>
     stacked w source_ds b = Some data \<and>
     nodes w (data_grp stype @ [last source_ds, name b]) = Some (Dataset d) \<and>
     (case content d of Arr2 rs \<Rightarrow> length rs = length data \<and> can_grow d (ncols rs + ncols data)
      | _ \<Rightarrow> False)"

text \<open>The dataset at a path (an empty one if there is none).\<close>

definition dataset_at :: "writer \<Rightarrow> path \<Rightarrow> dataset" where
  "dataset_at w p =
     (case nodes w p of Some (Dataset d) \<Rightarrow> d | _ \<Rightarrow> new_dataset (Arr1 []) None NaN)"

text \<open>A complete fixed-step batch for the population \<open>pop\<close>.\<close>

definition ex_batch_full :: "(sample list) data_object" where
  "ex_batch_full =
     \<lparr>name = ''Vm'', unit = Some ''mV'', tunit = Some ''ms'', field = ''Vm'', dt = Some 1,
      sampling_times = [],
      src_data = [(''a'', [Val 5, Val 6]), (''b'', [Val 7, Val 8])]\<rparr>"

text \<open>
  The files after a first batch of \<open>pop/Vm\<close> was written as fixed-step data, as static
  data, and after the first batch of spikes.
\<close>

definition ex_uniform1 :: writer where
  "ex_uniform1 = snd (add_uniform_data ex_vlen [''map'', ''uniform'', ''pop''] ex_batch_full 0 False)"

definition ex_static1 :: writer where
  "ex_static1 = snd (add_static_data ex_vlen [''map'', ''static'', ''pop''] ex_batch_full False)"

definition ex_event1 :: writer where
  "ex_event1 = snd (add_event_vlen ex_vlen [''map'', ''event'', ''pop''] ex_spikes1 False)"

section \<open>Facts about the storage operations\<close>


lemma only_groups_added_refl: "only_groups_added w w"
  by (simp add: only_groups_added_def)

lemma require_group_cases:
  "require_group w base nm = (r, w1) \<Longrightarrow>
     (r = Inl H5_type \<and> w1 = w) \<or>
     (r = Inr (base @ [nm]) \<and> (\<exists>a. nodes w (base @ [nm]) = Some (Group a)) \<and> w1 = w) \<or>
     (r = Inr (base @ [nm]) \<and> nodes w (base @ [nm]) = None
        \<and> w1 = w\<lparr>nodes := (nodes w)(base @ [nm] \<mapsto> Group Map.empty)\<rparr>)"
  by (auto simp: require_group_def split: option.splits node.splits)

lemma require_subgroup_cases:
  "require_subgroup w base nm = (r, w1) \<Longrightarrow>
     ((\<exists>e. r = Inl e) \<and> w1 = w) \<or>
     (r = Inr (base @ [nm]) \<and> (\<exists>a. nodes w (base @ [nm]) = Some (Group a)) \<and> w1 = w) \<or>
     (r = Inr (base @ [nm]) \<and> nodes w (base @ [nm]) = None
        \<and> w1 = w\<lparr>nodes := (nodes w)(base @ [nm] \<mapsto> Group Map.empty)\<rparr>)"
  by (auto simp: require_subgroup_def require_group_def split: option.splits node.splits sum.splits)

lemma require_subgroup_only_groups:
  "require_subgroup w base nm = (r, w1) \<Longrightarrow> only_groups_added w w1"
  by (drule require_subgroup_cases) (elim disjE conjE exE, simp_all add: only_groups_added_def)

lemma require_subgroup_keeps:
  "require_subgroup w base nm = (r, w1) \<Longrightarrow> nodes w q = Some n \<Longrightarrow> nodes w1 q = Some n"
  by (drule require_subgroup_cases) auto

lemma require_subgroup_ds_items:
  "require_subgroup w base nm = (r, w1) \<Longrightarrow> ds_items w source_ds = Inr ids \<Longrightarrow> ds_items w1 source_ds = Inr ids"
  by (drule require_subgroup_cases) (elim disjE conjE exE, auto simp: ds_items_def split: option.splits node.splits content.splits if_splits)

lemma base_ready_require:
  "base_ready w stype popname \<Longrightarrow>
     \<exists>w1. require_subgroup w (data_grp stype) popname = (Inr (data_grp stype @ [popname]), w1)
        \<and> only_groups_added w w1
        \<and> (\<forall>q. q \<noteq> data_grp stype @ [popname] \<longrightarrow> nodes w1 q = nodes w q)
        \<and> (\<forall>q n. nodes w q = Some n \<longrightarrow> nodes w1 q = Some n)
        \<and> dialect w1 = dialect w \<and> id_path_dict w1 = id_path_dict w \<and> log w1 = log w"
  by (auto simp: base_ready_def require_subgroup_def require_group_def h5_getitem_def only_groups_added_def
        split: option.splits node.splits)

lemma get_all_match:
  "set ss \<subseteq> set (get_sources b) \<Longrightarrow>
     get_all b ss = Inr (map (\<lambda>s. the (map_of (src_data b) s)) ss)"
proof (induction ss)
  case Nil
  then show ?case by simp
next
  case (Cons s ss)
  then have "s \<in> fst ` set (src_data b)" by (simp add: get_sources_def)
  then obtain x where "map_of (src_data b) s = Some x"
    by (metis domD dom_map_of_conv_image_fst)
  with Cons show ?case by (simp add: get_data_def)
qed

lemma set_attr_fields [simp]:
  "dialect (set_attr w p k v) = dialect w"
  "id_path_dict (set_attr w p k v) = id_path_dict w"
  "log (set_attr w p k v) = log w"
  by (simp_all add: set_attr_def split: option.splits node.splits)

lemma upd_dataset_fields [simp]:
  "dialect (upd_dataset w p f) = dialect w"
  "id_path_dict (upd_dataset w p f) = id_path_dict w"
  "log (upd_dataset w p f) = log w"
  by (simp_all add: upd_dataset_def split: option.splits node.splits)

lemma nodes_set_attr_other [simp]: "q \<noteq> p \<Longrightarrow> nodes (set_attr w p k v) q = nodes w q"
  by (simp add: set_attr_def split: option.splits node.splits)

lemma nodes_upd_dataset_other [simp]: "q \<noteq> p \<Longrightarrow> nodes (upd_dataset w p f) q = nodes w q"
  by (simp add: upd_dataset_def split: option.splits node.splits)

lemma nodes_set_attr_None [simp]: "nodes (set_attr w p k v) q = None \<longleftrightarrow> nodes w q = None"
  by (simp add: set_attr_def split: option.splits node.splits)

lemma nodes_upd_dataset_None [simp]: "nodes (upd_dataset w p f) q = None \<longleftrightarrow> nodes w q = None"
  by (simp add: upd_dataset_def split: option.splits node.splits)

lemma content_at_set_attr [simp]: "content_at (set_attr w p k v) q = content_at w q"
  by (simp add: content_at_def set_attr_def split: option.splits node.splits)

lemma attrs_at_set_attr [simp]:
  "attrs_at (set_attr w p k v) q =
     (if q = p then map_option (\<lambda>a. a(k \<mapsto> v)) (attrs_at w p) else attrs_at w q)"
  by (simp add: attrs_at_def set_attr_def node_attrs_def split: option.splits node.splits)

lemma content_at_upd_dataset:
  "(\<And>d. content (f d) = content d) \<Longrightarrow> content_at (upd_dataset w p f) q = content_at w q"
  by (simp add: content_at_def upd_dataset_def split: option.splits node.splits)

lemma attrs_at_upd_dataset:
  "(\<And>d. attrs (f d) = attrs d) \<Longrightarrow> attrs_at (upd_dataset w p f) q = attrs_at w q"
  by (simp add: attrs_at_def upd_dataset_def node_attrs_def split: option.splits node.splits)

lemma scale_ops_fields [simp]:
  "dialect (create_scale w s nm) = dialect w"
  "id_path_dict (create_scale w s nm) = id_path_dict w"
  "log (create_scale w s nm) = log w"
  "dialect (attach_scale w p ax s) = dialect w"
  "id_path_dict (attach_scale w p ax s) = id_path_dict w"
  "log (attach_scale w p ax s) = log w"
  "dialect (set_dim_label w p ax l) = dialect w"
  "id_path_dict (set_dim_label w p ax l) = id_path_dict w"
  "log (set_dim_label w p ax l) = log w"
  by (simp_all add: create_scale_def attach_scale_def set_dim_label_def)

lemma scale_ops_content [simp]:
  "content_at (create_scale w s nm) q = content_at w q"
  "content_at (attach_scale w p ax s) q = content_at w q"
  "content_at (set_dim_label w p ax l) q = content_at w q"
  by (simp_all add: create_scale_def attach_scale_def set_dim_label_def content_at_upd_dataset)

lemma scale_ops_attrs [simp]:
  "attrs_at (create_scale w s nm) q = attrs_at w q"
  "attrs_at (attach_scale w p ax s) q = attrs_at w q"
  "attrs_at (set_dim_label w p ax l) q = attrs_at w q"
  by (simp_all add: create_scale_def attach_scale_def set_dim_label_def attrs_at_upd_dataset)

lemma scale_ops_None [simp]:
  "nodes (create_scale w s nm) q = None \<longleftrightarrow> nodes w q = None"
  "nodes (attach_scale w p ax s) q = None \<longleftrightarrow> nodes w q = None"
  "nodes (set_dim_label w p ax l) q = None \<longleftrightarrow> nodes w q = None"
  by (simp_all add: create_scale_def attach_scale_def set_dim_label_def)

lemma create_dataset_ok:
  "nodes w p = None \<Longrightarrow>
     create_dataset w p d = (Inr p, w\<lparr>nodes := (nodes w)(p \<mapsto> Dataset d)\<rparr>)"
  by (simp add: create_dataset_def)

lemma create_dataset_exists:
  "nodes w p = Some n \<Longrightarrow> create_dataset w p d = (Inl (H5_exists p), w)"
  by (simp add: create_dataset_def)

lemma content_at_new [simp]:
  "content_at (w\<lparr>nodes := (nodes w)(p \<mapsto> Dataset d)\<rparr>) q = (if q = p then Some (content d) else content_at w q)"
  by (simp add: content_at_def)

lemma attrs_at_new [simp]:
  "attrs_at (w\<lparr>nodes := (nodes w)(p \<mapsto> Dataset d)\<rparr>) q = (if q = p then Some (attrs d) else attrs_at w q)"
  by (simp add: attrs_at_def node_attrs_def)

lemma add_uniform_data_create_ok:
  assumes "nodes w (ugrp @ [name b]) = None"
    and "\<not> dt_le_zero (dt b)" and "unit b = Some u" and "tunit b = Some tu"
  shows "\<exists>w'. add_uniform_data_create w source_ds ugrp b data tstart fixed = (Inr (ugrp @ [name b]), w')
          \<and> content_at w' (ugrp @ [name b]) = Some (Arr2 data)"
  using assms
  by (simp add: add_uniform_data_create_def create_dataset_ok new_dataset_def Let_def)




lemma append_columns_no_source_error:
  "fst (append_columns w p n data) \<noteq> Inl KeyError_sources"
  by (auto simp: append_columns_def resize_cols_def write_cols_def Let_def
        split: node.splits content.splits sum.splits option.splits if_splits)

lemma add_uniform_data_create_no_source_error:
  "fst (add_uniform_data_create w source_ds ugrp b data tstart fixed) \<noteq> Inl KeyError_sources"
  by (auto simp: add_uniform_data_create_def create_dataset_def Let_def split: option.splits)

lemma vstack_cases:
  "vstack rs = Inl ValueError_numpy \<or> vstack rs = Inr rs"
  by (simp add: vstack_def split: list.splits)

lemma require_subgroup_error:
  "require_subgroup w base nm = (Inl e, w1) \<Longrightarrow> e = KeyError_missing base \<or> e = H5_type"
  by (auto simp: require_subgroup_def require_group_def h5_getitem_def split: option.splits node.splits)

text \<open>
  Claim C9. The validation of a batch against its mapping compares sets: a batch whose
  source list repeats an id passes \<^verbatim>\<open>match_datasets\<close> whenever its ids, as a set, are
  the ids of the mapping. The rows are then read in mapping order, the call never ends
  in the source-mismatch \<^verbatim>\<open>KeyError\<close>, and on a first write with complete metadata and
  rows of one length the array is created from the rows in mapping order.
\<close>

theorem duplicate_sources_pass_validation:
  assumes dup: "\<not> distinct (get_sources data_object)"
    and eq: "set (get_sources data_object) = set ids"
    and ds: "ds_items w source_ds = Inr ids"
  shows "match_datasets ids (get_sources data_object)
       \<and> get_all data_object ids = Inr (map (\<lambda>s. the (map_of (src_data data_object) s)) ids)
       \<and> fst (add_uniform_data w source_ds data_object tstart fixed) \<noteq> Inl KeyError_sources
       \<and> (base_ready w UNIFORM (last source_ds)
            \<and> nodes w (data_grp UNIFORM @ [last source_ds, name data_object]) = None
            \<and> \<not> dt_le_zero (dt data_object) \<and> unit data_object \<noteq> None \<and> tunit data_object \<noteq> None
            \<and> list_all (\<lambda>s. length (the (map_of (src_data data_object) s)) = n) ids
          \<longrightarrow> (\<exists>w'. add_uniform_data w source_ds data_object tstart fixed
                       = (Inr (data_grp UNIFORM @ [last source_ds, name data_object]), w')
                 \<and> content_at w' (data_grp UNIFORM @ [last source_ds, name data_object])
                       = Some (Arr2 (map (\<lambda>s. the (map_of (src_data data_object) s)) ids))))"
proof (intro conjI impI)
  let ?rows = "map (\<lambda>s. the (map_of (src_data data_object) s)) ids"
  let ?p = "data_grp UNIFORM @ [last source_ds, name data_object]"
  show m: "match_datasets ids (get_sources data_object)"
    using eq by (simp add: match_datasets_def)
  show ga: "get_all data_object ids = Inr ?rows"
    using eq by (intro get_all_match) simp
  obtain r w1 where rq: "require_subgroup w (data_grp UNIFORM) (last source_ds) = (r, w1)"
    by (cases "require_subgroup w (data_grp UNIFORM) (last source_ds)")
  have di: "ds_items w1 source_ds = Inr ids"
    by (rule require_subgroup_ds_items [OF rq ds])
  show "fst (add_uniform_data w source_ds data_object tstart fixed) \<noteq> Inl KeyError_sources"
  proof (cases r)
    case (Inl e)
    with rq require_subgroup_error [of w "data_grp UNIFORM" "last source_ds" e w1]
    show ?thesis by (auto simp: add_uniform_data_def)
  next
    case (Inr ugrp)
    show ?thesis
      using rq Inr di m ga vstack_cases [of ?rows]
        append_columns_no_source_error add_uniform_data_create_no_source_error
      by (auto simp: add_uniform_data_def split: sum.splits)
  qed
  assume a: "base_ready w UNIFORM (last source_ds)
            \<and> nodes w ?p = None
            \<and> \<not> dt_le_zero (dt data_object) \<and> unit data_object \<noteq> None \<and> tunit data_object \<noteq> None
            \<and> list_all (\<lambda>s. length (the (map_of (src_data data_object) s)) = n) ids"
  from a base_ready_require [of w UNIFORM "last source_ds"]
  obtain w2 where rq2: "require_subgroup w (data_grp UNIFORM) (last source_ds)
                          = (Inr (data_grp UNIFORM @ [last source_ds]), w2)"
    and oth: "\<forall>q. q \<noteq> data_grp UNIFORM @ [last source_ds] \<longrightarrow> nodes w2 q = nodes w q"
    by blast
  have di2: "ds_items w2 source_ds = Inr ids"
    by (rule require_subgroup_ds_items [OF rq2 ds])
  have ne: "ids \<noteq> []" using dup eq by (cases ids) (auto simp: get_sources_def)
  have vs: "vstack ?rows = Inr ?rows"
    using a ne by (cases ids) (auto simp: vstack_def list_all_iff)
  have absent: "nodes w2 ((data_grp UNIFORM @ [last source_ds]) @ [name data_object]) = None"
    using a oth by simp
  from a obtain u tu where u: "unit data_object = Some u" "tunit data_object = Some tu" by auto
  from add_uniform_data_create_ok [OF absent _ u, of source_ds ?rows tstart fixed] a
  obtain w' where cr: "add_uniform_data_create w2 source_ds (data_grp UNIFORM @ [last source_ds])
                           data_object ?rows tstart fixed = (Inr ?p, w')"
    and ct: "content_at w' ?p = Some (Arr2 ?rows)"
    by auto
  show "\<exists>w'. add_uniform_data w source_ds data_object tstart fixed = (Inr ?p, w')
            \<and> content_at w' ?p = Some (Arr2 ?rows)"
    using rq2 di2 m ga vs absent cr ct
    by (simp add: add_uniform_data_def h5_getitem_def)
qed

subsection \<open>Unfolding the model on concrete stores\<close>

lemmas const_defs = data_grp_def mapping_grp_def EVENT_def SAMPLING_TYPES_def UNIFORM_def
  NONUNIFORM_def STATIC_def time_dim_def modeltree_def init_def init_groups_def

lemmas h5_defs = require_subgroup_def require_group_def h5_getitem_def create_dataset_def
  new_dataset_def set_attr_def upd_dataset_def create_scale_def attach_scale_def set_dim_label_def
  ds_items_def ds_sources_def

lemmas declare_defs = add_uniform_ds_def add_static_ds_def add_event_ds_def add_nonuniform_ds_def
  add_event_ds_1d_def add_nonuniform_ds_1d_def mapping_base_def create_and_link_def
  link_map_model_def mapds_idlist_def dict_len_def

lemma ex_uniform_nodes:
  "ds_items ex_uniform [''map'', ''uniform'', ''pop''] = Inr [''a'', ''b'']"
  "base_ready ex_uniform UNIFORM ''pop''"
  "nodes ex_uniform [''data'', ''uniform'', ''pop'', ''Vm''] = None"
  by (simp_all add: ex_uniform_def declare_defs const_defs h5_defs base_ready_def)

theorem duplicate_sources_pass_validation_witness:
  "\<not> distinct (get_sources ex_batch_dup)
   \<and> set (get_sources ex_batch_dup) = set [''a'', ''b'']
   \<and> (\<exists>w'. add_uniform_data ex_uniform [''map'', ''uniform'', ''pop''] ex_batch_dup 0 False
              = (Inr [''data'', ''uniform'', ''pop'', ''Vm''], w')
        \<and> content_at w' [''data'', ''uniform'', ''pop'', ''Vm'']
              = Some (Arr2 [[Val 1, Val 2], [Val 3, Val 4]]))"
proof -
  have h1: "\<not> distinct (get_sources ex_batch_dup)"
    by (simp add: get_sources_def ex_batch_dup_def)
  have h2: "set (get_sources ex_batch_dup) = set [''a'', ''b'']"
    by (auto simp: get_sources_def ex_batch_dup_def)
  have h4: "base_ready ex_uniform UNIFORM (last [''map'', ''uniform'', ''pop''])
            \<and> nodes ex_uniform (data_grp UNIFORM @ [last [''map'', ''uniform'', ''pop''], name ex_batch_dup]) = None
            \<and> \<not> dt_le_zero (dt ex_batch_dup) \<and> unit ex_batch_dup \<noteq> None \<and> tunit ex_batch_dup \<noteq> None
            \<and> list_all (\<lambda>s. length (the (map_of (src_data ex_batch_dup) s)) = 2) [''a'', ''b'']"
    using ex_uniform_nodes(2,3)
    by (simp add: ex_batch_dup_def dt_le_zero_def data_grp_def UNIFORM_def)
  from duplicate_sources_pass_validation [OF h1 h2 ex_uniform_nodes(1), of 0 False 2] h4 h1 h2
  show ?thesis
    by (simp add: ex_batch_dup_def data_grp_def UNIFORM_def)
qed


section \<open>First writes need their metadata\<close>

lemma first_writeD:
  assumes "first_write w source_ds stype b"
  obtains w1 ids where
    "require_subgroup w (data_grp stype) (last source_ds) = (Inr (data_grp stype @ [last source_ds]), w1)"
    "only_groups_added w w1" "ds_items w source_ds = Inr ids" "ds_items w1 source_ds = Inr ids"
    "match_datasets ids (get_sources b)"
    "h5_getitem w1 (data_grp stype @ [last source_ds] @ [name b])
       = Inl (KeyError_missing (data_grp stype @ [last source_ds] @ [name b]))"
    "nodes w1 (data_grp stype @ [last source_ds] @ [name b]) = None"
    "dialect w1 = dialect w"
proof -
  from assms have br: "base_ready w stype (last source_ds)"
    and ab: "nodes w (data_grp stype @ [last source_ds, name b]) = None"
    by (simp_all add: first_write_def)
  from assms obtain ids where di: "ds_items w source_ds = Inr ids"
    and m: "match_datasets ids (get_sources b)"
    by (auto simp: first_write_def split: sum.splits)
  from base_ready_require [OF br] obtain w1 where
    rq: "require_subgroup w (data_grp stype) (last source_ds) = (Inr (data_grp stype @ [last source_ds]), w1)"
    and og: "only_groups_added w w1"
    and oth: "\<forall>q. q \<noteq> data_grp stype @ [last source_ds] \<longrightarrow> nodes w1 q = nodes w q"
    and dl: "dialect w1 = dialect w"
    by blast
  have n1: "nodes w1 (data_grp stype @ [last source_ds] @ [name b]) = None"
    using oth ab by simp
  show thesis
    using that [OF rq og di require_subgroup_ds_items [OF rq di] m _ n1 dl] n1
    by (simp add: h5_getitem_def)
qed

lemma stackedD:
  assumes "stacked w source_ds b = Some data" and "ds_items w source_ds = Inr ids"
  obtains ordered_data where "get_all b ids = Inr ordered_data" "vstack ordered_data = Inr data"
  using assms by (auto simp: stacked_def split: sum.splits)

lemma add_uniform_data_first_write:
  assumes fw: "first_write w source_ds UNIFORM b"
    and st: "stacked w source_ds b = Some data"
    and mm: "dt_le_zero (dt b) \<or> unit b = None \<or> tunit b = None"
  shows "rejected w (add_uniform_data w source_ds b tstart fixed)"
proof -
  from fw obtain w1 ids where
    rq: "require_subgroup w (data_grp UNIFORM) (last source_ds) = (Inr (data_grp UNIFORM @ [last source_ds]), w1)"
    and og: "only_groups_added w w1" and di: "ds_items w source_ds = Inr ids"
    and di1: "ds_items w1 source_ds = Inr ids" and m: "match_datasets ids (get_sources b)"
    and gi: "h5_getitem w1 (data_grp UNIFORM @ [last source_ds] @ [name b])
       = Inl (KeyError_missing (data_grp UNIFORM @ [last source_ds] @ [name b]))"
    by (rule first_writeD)
  from st di obtain od where ga: "get_all b ids = Inr od" and vs: "vstack od = Inr data"
    by (rule stackedD)
  show ?thesis
    using rq og di1 m gi ga vs mm
    by (auto simp: add_uniform_data_def add_uniform_data_create_def rejected_def MissingMetadata_def)
qed


lemma add_nonuniform_regular_first_write:
  assumes fw: "first_write w source_ds NONUNIFORM b"
    and st: "stacked w source_ds b = Some data"
    and tm: "ncols data = length (get_times b)"
    and mm: "unit b = None \<or> tunit b = None"
  shows "rejected w (add_nonuniform_regular w source_ds b fixed)"
proof -
  from fw obtain w1 ids where
    rq: "require_subgroup w (data_grp NONUNIFORM) (last source_ds) = (Inr (data_grp NONUNIFORM @ [last source_ds]), w1)"
    and og: "only_groups_added w w1" and di: "ds_items w source_ds = Inr ids"
    and di1: "ds_items w1 source_ds = Inr ids" and m: "match_datasets ids (get_sources b)"
    and gi: "h5_getitem w1 (data_grp NONUNIFORM @ [last source_ds] @ [name b])
       = Inl (KeyError_missing (data_grp NONUNIFORM @ [last source_ds] @ [name b]))"
    by (rule first_writeD)
  from st di obtain od where ga: "get_all b ids = Inr od" and vs: "vstack od = Inr data"
    by (rule stackedD)
  show ?thesis
    using rq og di1 m gi ga vs mm tm
    by (auto simp: add_nonuniform_regular_def add_nonuniform_regular_create_def rejected_def
          MissingMetadata_def)
qed

lemma add_static_data_first_write:
  assumes fw: "first_write w source_ds STATIC b"
    and st: "stacked w source_ds b = Some data"
    and mm: "unit b = None"
  shows "rejected w (add_static_data w source_ds b fixed)"
proof -
  from fw obtain w1 ids where
    rq: "require_subgroup w (data_grp STATIC) (last source_ds) = (Inr (data_grp STATIC @ [last source_ds]), w1)"
    and og: "only_groups_added w w1" and di: "ds_items w source_ds = Inr ids"
    and di1: "ds_items w1 source_ds = Inr ids" and m: "match_datasets ids (get_sources b)"
    and gi: "h5_getitem w1 (data_grp STATIC @ [last source_ds] @ [name b])
       = Inl (KeyError_missing (data_grp STATIC @ [last source_ds] @ [name b]))"
    by (rule first_writeD)
  from st di obtain od where ga: "get_all b ids = Inr od" and vs: "vstack od = Inr data"
    by (rule stackedD)
  show ?thesis
    using rq og di1 m gi ga vs mm
    by (auto simp: add_static_data_def add_static_data_create_def rejected_def MissingMetadata_def)
qed

lemma add_event_vlen_first_write:
  assumes fw: "first_write w source_ds EVENT b"
    and dl: "dialect w = VLEN"
    and mm: "unit b = None"
  shows "rejected w (add_event_vlen w source_ds b fixed)"
proof -
  from fw obtain w1 ids where
    rq: "require_subgroup w (data_grp EVENT) (last source_ds) = (Inr (data_grp EVENT @ [last source_ds]), w1)"
    and og: "only_groups_added w w1" and di: "ds_items w source_ds = Inr ids"
    and di1: "ds_items w1 source_ds = Inr ids" and m: "match_datasets ids (get_sources b)"
    and gi: "h5_getitem w1 (data_grp EVENT @ [last source_ds] @ [name b])
       = Inl (KeyError_missing (data_grp EVENT @ [last source_ds] @ [name b]))"
    by (rule first_writeD)
  show ?thesis
    using rq og di1 m gi mm dl
    by (auto simp: add_event_vlen_def add_event_vlen_create_def rejected_def MissingMetadata_def)
qed

lemma add_nonuniform_vlen_first_write:
  assumes fw: "first_write w source_ds NONUNIFORM b"
    and dl: "dialect w = VLEN"
    and mm: "unit b = None \<or> tunit b = None"
  shows "rejected w (add_nonuniform_vlen w source_ds b fixed)"
proof -
  from fw obtain w1 ids where
    rq: "require_subgroup w (data_grp NONUNIFORM) (last source_ds) = (Inr (data_grp NONUNIFORM @ [last source_ds]), w1)"
    and og: "only_groups_added w w1" and di: "ds_items w source_ds = Inr ids"
    and di1: "ds_items w1 source_ds = Inr ids" and m: "match_datasets ids (get_sources b)"
    and gi: "h5_getitem w1 (data_grp NONUNIFORM @ [last source_ds] @ [name b])
       = Inl (KeyError_missing (data_grp NONUNIFORM @ [last source_ds] @ [name b]))"
    by (rule first_writeD)
  show ?thesis
    using rq og di1 m gi mm dl
    by (auto simp: add_nonuniform_vlen_def add_nonuniform_vlen_create_def rejected_def
          MissingMetadata_def Let_def)
qed

lemma get_all_cases:
  assumes "match_datasets ids (get_sources b)"
  obtains od where "get_all b ids = Inr od"
  using assms get_all_match [of ids b] by (simp add: match_datasets_def)

lemma add_event_nan_first_write:
  assumes fw: "first_write w source_ds EVENT b"
    and dl: "dialect w = NANPADDED"
    and mm: "unit b = None"
  shows "rejected w (add_event_nan w source_ds b fixed)"
proof -
  from fw obtain w1 ids where
    rq: "require_subgroup w (data_grp EVENT) (last source_ds) = (Inr (data_grp EVENT @ [last source_ds]), w1)"
    and og: "only_groups_added w w1" and di: "ds_items w source_ds = Inr ids"
    and di1: "ds_items w1 source_ds = Inr ids" and m: "match_datasets ids (get_sources b)"
    and gi: "h5_getitem w1 (data_grp EVENT @ [last source_ds] @ [name b])
       = Inl (KeyError_missing (data_grp EVENT @ [last source_ds] @ [name b]))"
    by (rule first_writeD)
  from m obtain od where ga: "get_all b ids = Inr od" by (rule get_all_cases)
  show ?thesis
    using rq og di1 m gi mm dl ga
    by (auto simp: add_event_nan_def add_event_nan_create_def rejected_def MissingMetadata_def Let_def)
qed

lemma add_nonuniform_nan_first_write:
  assumes fw: "first_write w source_ds NONUNIFORM b"
    and dl: "dialect w = NANPADDED"
    and mm: "unit b = None \<or> tunit b = None"
  shows "rejected w (add_nonuniform_nan w source_ds b fixed)"
proof -
  from fw obtain w1 ids where
    rq: "require_subgroup w (data_grp NONUNIFORM) (last source_ds) = (Inr (data_grp NONUNIFORM @ [last source_ds]), w1)"
    and og: "only_groups_added w w1" and di: "ds_items w source_ds = Inr ids"
    and di1: "ds_items w1 source_ds = Inr ids" and m: "match_datasets ids (get_sources b)"
    and gi: "h5_getitem w1 (data_grp NONUNIFORM @ [last source_ds] @ [name b])
       = Inl (KeyError_missing (data_grp NONUNIFORM @ [last source_ds] @ [name b]))"
    by (rule first_writeD)
  from m obtain od where ga: "get_all b ids = Inr od" by (rule get_all_cases)
  show ?thesis
    using rq og di1 m gi mm dl ga
    by (auto simp: add_nonuniform_nan_def add_nonuniform_nan_create_def rejected_def
          MissingMetadata_def Let_def)
qed

lemmas ex_defs = ex_uniform_def ex_vlen_def ex_nan_def ex_event_1d_def ex_batch_bare_def ex_batch_bare2_def
  ex_batch_ab_def ex_batch_a_nounit_def ex_batch_dup_def

text \<open>
  Claim C5, as amended. In the dialects that keep one array per population and field
  (\<^verbatim>\<open>add_uniform_data\<close>, \<^verbatim>\<open>add_nonuniform_regular\<close>, \<^verbatim>\<open>add_static_data\<close>,
  \<^verbatim>\<open>add_event_vlen\<close>, \<^verbatim>\<open>add_nonuniform_vlen\<close>, \<^verbatim>\<open>add_event_nan\<close>,
  \<^verbatim>\<open>add_nonuniform_nan\<close>), a first write whose batch lacks the unit, or the time unit
  where the operation asks for one, or a positive \<^verbatim>\<open>dt\<close> for the fixed-step operation,
  fails with one of the missing-metadata errors, and afterwards the store holds no new
  array and no new attribute: at most the empty population group was added.
\<close>

theorem creation_without_metadata_rejected:
  "(first_write w source_ds UNIFORM b \<and> stacked w source_ds b \<noteq> None
      \<and> (dt_le_zero (dt b) \<or> unit b = None \<or> tunit b = None)
      \<longrightarrow> rejected w (add_uniform_data w source_ds b tstart fixed))
   \<and> (first_write w source_ds NONUNIFORM b
      \<and> (case stacked w source_ds b of None \<Rightarrow> False | Some data \<Rightarrow> ncols data = length (get_times b))
      \<and> (unit b = None \<or> tunit b = None)
      \<longrightarrow> rejected w (add_nonuniform_regular w source_ds b fixed))
   \<and> (first_write w source_ds STATIC b \<and> stacked w source_ds b \<noteq> None \<and> unit b = None
      \<longrightarrow> rejected w (add_static_data w source_ds b fixed))
   \<and> (first_write w source_ds EVENT b \<and> dialect w = VLEN \<and> unit b = None
      \<longrightarrow> rejected w (add_event_vlen w source_ds b fixed))
   \<and> (first_write w source_ds NONUNIFORM b2 \<and> dialect w = VLEN \<and> (unit b2 = None \<or> tunit b2 = None)
      \<longrightarrow> rejected w (add_nonuniform_vlen w source_ds b2 fixed))
   \<and> (first_write w source_ds EVENT b \<and> dialect w = NANPADDED \<and> unit b = None
      \<longrightarrow> rejected w (add_event_nan w source_ds b fixed))
   \<and> (first_write w source_ds NONUNIFORM b2 \<and> dialect w = NANPADDED \<and> (unit b2 = None \<or> tunit b2 = None)
      \<longrightarrow> rejected w (add_nonuniform_nan w source_ds b2 fixed))"
proof (intro conjI impI)
  assume "first_write w source_ds UNIFORM b \<and> stacked w source_ds b \<noteq> None
      \<and> (dt_le_zero (dt b) \<or> unit b = None \<or> tunit b = None)"
  then show "rejected w (add_uniform_data w source_ds b tstart fixed)"
    using add_uniform_data_first_write by blast
next
  assume a: "first_write w source_ds NONUNIFORM b
      \<and> (case stacked w source_ds b of None \<Rightarrow> False | Some data \<Rightarrow> ncols data = length (get_times b))
      \<and> (unit b = None \<or> tunit b = None)"
  then obtain data where "stacked w source_ds b = Some data" "ncols data = length (get_times b)"
    by (auto split: option.splits)
  with a show "rejected w (add_nonuniform_regular w source_ds b fixed)"
    using add_nonuniform_regular_first_write by blast
next
  assume "first_write w source_ds STATIC b \<and> stacked w source_ds b \<noteq> None \<and> unit b = None"
  then show "rejected w (add_static_data w source_ds b fixed)"
    using add_static_data_first_write by blast
next
  assume "first_write w source_ds EVENT b \<and> dialect w = VLEN \<and> unit b = None"
  then show "rejected w (add_event_vlen w source_ds b fixed)"
    using add_event_vlen_first_write by blast
next
  assume "first_write w source_ds NONUNIFORM b2 \<and> dialect w = VLEN \<and> (unit b2 = None \<or> tunit b2 = None)"
  then show "rejected w (add_nonuniform_vlen w source_ds b2 fixed)"
    using add_nonuniform_vlen_first_write by blast
next
  assume "first_write w source_ds EVENT b \<and> dialect w = NANPADDED \<and> unit b = None"
  then show "rejected w (add_event_nan w source_ds b fixed)"
    using add_event_nan_first_write by blast
next
  assume "first_write w source_ds NONUNIFORM b2 \<and> dialect w = NANPADDED \<and> (unit b2 = None \<or> tunit b2 = None)"
  then show "rejected w (add_nonuniform_nan w source_ds b2 fixed)"
    using add_nonuniform_nan_first_write by blast
qed

lemmas eval_defs = const_defs h5_defs declare_defs base_ready_def first_write_def stacked_def
  match_datasets_def get_sources_def get_data_def vstack_def ncols_def get_times_def dt_le_zero_def

lemma ex_vlen_first_write:
  "first_write ex_vlen [''map'', ''uniform'', ''pop''] UNIFORM ex_batch_bare"
  "first_write ex_vlen [''map'', ''nonuniform'', ''pop''] NONUNIFORM ex_batch_bare"
  "first_write ex_vlen [''map'', ''static'', ''pop''] STATIC ex_batch_bare"
  "first_write ex_vlen [''map'', ''event'', ''pop''] EVENT ex_batch_bare"
  "first_write ex_vlen [''map'', ''nonuniform'', ''pop''] NONUNIFORM ex_batch_bare2"
  "dialect ex_vlen = VLEN"
  by (simp_all add: ex_defs eval_defs, auto)

lemma ex_nan_first_write:
  "first_write ex_nan [''map'', ''event'', ''pop''] EVENT ex_batch_bare"
  "first_write ex_nan [''map'', ''nonuniform'', ''pop''] NONUNIFORM ex_batch_bare2"
  "dialect ex_nan = NANPADDED"
  by (simp_all add: ex_defs eval_defs, auto)

lemma ex_vlen_stacked:
  "stacked ex_vlen [''map'', ''uniform'', ''pop''] ex_batch_bare = Some [[Val 1, Val 2], [Val 3, Val 4]]"
  "stacked ex_vlen [''map'', ''nonuniform'', ''pop''] ex_batch_bare = Some [[Val 1, Val 2], [Val 3, Val 4]]"
  "stacked ex_vlen [''map'', ''static'', ''pop''] ex_batch_bare = Some [[Val 1, Val 2], [Val 3, Val 4]]"
  by (simp_all add: ex_defs eval_defs)

theorem creation_without_metadata_rejected_witness:
  "rejected ex_vlen (add_uniform_data ex_vlen [''map'', ''uniform'', ''pop''] ex_batch_bare 0 False)
   \<and> rejected ex_vlen (add_nonuniform_regular ex_vlen [''map'', ''nonuniform'', ''pop''] ex_batch_bare False)
   \<and> rejected ex_vlen (add_static_data ex_vlen [''map'', ''static'', ''pop''] ex_batch_bare False)
   \<and> rejected ex_vlen (add_event_vlen ex_vlen [''map'', ''event'', ''pop''] ex_batch_bare False)
   \<and> rejected ex_vlen (add_nonuniform_vlen ex_vlen [''map'', ''nonuniform'', ''pop''] ex_batch_bare2 False)
   \<and> rejected ex_nan (add_event_nan ex_nan [''map'', ''event'', ''pop''] ex_batch_bare False)
   \<and> rejected ex_nan (add_nonuniform_nan ex_nan [''map'', ''nonuniform'', ''pop''] ex_batch_bare2 False)"
proof -
  have m: "unit ex_batch_bare = None" "unit ex_batch_bare2 = None"
    "length (get_times ex_batch_bare) = 2"
    by (simp_all add: ex_batch_bare_def ex_batch_bare2_def get_times_def)
  have n: "ncols [[Val 1, Val 2], [Val 3, Val 4]] = 2" by (simp add: ncols_def)
  note t = creation_without_metadata_rejected
  show ?thesis
    using t [of ex_vlen "[''map'', ''uniform'', ''pop'']" ex_batch_bare 0 False ex_batch_bare2]
      t [of ex_vlen "[''map'', ''nonuniform'', ''pop'']" ex_batch_bare 0 False ex_batch_bare2]
      t [of ex_vlen "[''map'', ''static'', ''pop'']" ex_batch_bare 0 False ex_batch_bare2]
      t [of ex_vlen "[''map'', ''event'', ''pop'']" ex_batch_bare 0 False ex_batch_bare2]
      t [of ex_nan "[''map'', ''event'', ''pop'']" ex_batch_bare 0 False ex_batch_bare2]
      t [of ex_nan "[''map'', ''nonuniform'', ''pop'']" ex_batch_bare 0 False ex_batch_bare2]
      ex_vlen_first_write ex_nan_first_write ex_vlen_stacked m n
    by simp
qed

lemmas event_1d_defs = add_event_1d_def second_last_def enumerate_py_def add_event_1d_create_def
  set_src_ref_def append_1d_def

text \<open>
  The claim as stated, for every first write, fails in the dialect with one dataset per
  source: \<^verbatim>\<open>add_event_1d\<close> writes the \<^verbatim>\<open>source\<close> attribute of the variable group before
  it looks at the unit, so the attribute is in the store after the call was rejected.
\<close>

theorem first_write_1d_writes_attribute_counterexample:
  "ds_sources ex_event_1d [''map'', ''event'', ''pop'', ''spike''] = Inr [''a'']
   \<and> get_sources ex_batch_a_nounit = [''a'']
   \<and> unit ex_batch_a_nounit = None
   \<and> nodes ex_event_1d [''data'', ''event'', ''pop'', ''spike'', ''da''] = None
   \<and> attr_at ex_event_1d [''data'', ''event'', ''pop'', ''spike''] ''source'' = None
   \<and> fst (add_event_1d ex_event_1d [''map'', ''event'', ''pop'', ''spike''] ex_batch_a_nounit
             [(''a'', ''da'')] False) = Inl ValueError_unit
   \<and> attr_at (snd (add_event_1d ex_event_1d [''map'', ''event'', ''pop'', ''spike''] ex_batch_a_nounit
                      [(''a'', ''da'')] False))
        [''data'', ''event'', ''pop'', ''spike''] ''source''
       = Some (ARef [''map'', ''event'', ''pop'', ''spike''])"
  by (simp add: ex_defs eval_defs event_1d_defs attr_at_def node_attrs_def Let_def)

section \<open>Batches whose sources differ from the mapping\<close>

text \<open>
  Claim C1. Every append operation is to reject a batch whose source set differs from
  that of the mapping. \<^verbatim>\<open>add_event_1d\<close> compares the batch with the keys of
  \<^verbatim>\<open>source_name_dict\<close> only and never with the mapping dataset (its sibling
  \<^verbatim>\<open>add_nonuniform_1d\<close> asserts both). Here the mapping holds the source \<open>a\<close> and the
  batch the sources \<open>a\<close> and \<open>b\<close>: the call succeeds and creates the dataset of \<open>a\<close>.
\<close>

theorem add_event_1d_accepts_other_sources:
  "ds_sources ex_event_1d [''map'', ''event'', ''pop'', ''spike''] = Inr [''a'']
   \<and> set (get_sources ex_batch_ab) = {''a'', ''b''}
   \<and> fst (add_event_1d ex_event_1d [''map'', ''event'', ''pop'', ''spike''] ex_batch_ab
             [(''a'', ''da''), (''b'', ''db'')] False)
       = Inr [(''a'', [''data'', ''event'', ''pop'', ''spike'', ''da''])]
   \<and> content_at (snd (add_event_1d ex_event_1d [''map'', ''event'', ''pop'', ''spike''] ex_batch_ab
                         [(''a'', ''da''), (''b'', ''db'')] False))
        [''data'', ''event'', ''pop'', ''spike'', ''da'']
       = Some (Arr1 [Val 1])"
  by (simp add: ex_defs eval_defs event_1d_defs content_at_def Let_def)

lemma mismatchD:
  assumes "base_ready w stype (last source_ds)" and "ds_items w source_ds = Inr ids"
    and "set (get_sources b) \<noteq> set ids"
  obtains w1 where
    "require_subgroup w (data_grp stype) (last source_ds) = (Inr (data_grp stype @ [last source_ds]), w1)"
    "only_groups_added w w1" "ds_items w1 source_ds = Inr ids"
    "\<not> match_datasets ids (get_sources b)"
proof -
  from base_ready_require [OF assms(1)] obtain w1 where
    rq: "require_subgroup w (data_grp stype) (last source_ds) = (Inr (data_grp stype @ [last source_ds]), w1)"
    and og: "only_groups_added w w1"
    by blast
  have "\<not> match_datasets ids (get_sources b)"
    using assms(3) by (auto simp: match_datasets_def)
  with that [OF rq og require_subgroup_ds_items [OF rq assms(2)]] show thesis .
qed

lemma add_uniform_data_mismatch_rejected:
  assumes "ds_items w source_ds = Inr ids"
    and "base_ready w UNIFORM (last source_ds)"
    and "set (get_sources b) \<noteq> set ids"
  shows "mismatch_rejected w (add_uniform_data w source_ds b tstart fixed)"
proof -
  from assms(2,1,3) obtain w1 where
    "require_subgroup w (data_grp UNIFORM) (last source_ds) = (Inr (data_grp UNIFORM @ [last source_ds]), w1)"
    "only_groups_added w w1" "ds_items w1 source_ds = Inr ids"
    "\<not> match_datasets ids (get_sources b)"
    by (rule mismatchD)
  then show ?thesis
    by (simp add: add_uniform_data_def mismatch_rejected_def)
qed

lemma add_nonuniform_regular_mismatch_rejected:
  assumes "ds_items w source_ds = Inr ids"
    and "base_ready w NONUNIFORM (last source_ds)"
    and "set (get_sources b) \<noteq> set ids"
  shows "mismatch_rejected w (add_nonuniform_regular w source_ds b fixed)"
proof -
  from assms(2,1,3) obtain w1 where
    "require_subgroup w (data_grp NONUNIFORM) (last source_ds) = (Inr (data_grp NONUNIFORM @ [last source_ds]), w1)"
    "only_groups_added w w1" "ds_items w1 source_ds = Inr ids"
    "\<not> match_datasets ids (get_sources b)"
    by (rule mismatchD)
  then show ?thesis
    by (simp add: add_nonuniform_regular_def mismatch_rejected_def)
qed

lemma add_static_data_mismatch_rejected:
  assumes "ds_items w source_ds = Inr ids"
    and "base_ready w STATIC (last source_ds)"
    and "set (get_sources b) \<noteq> set ids"
  shows "mismatch_rejected w (add_static_data w source_ds b fixed)"
proof -
  from assms(2,1,3) obtain w1 where
    "require_subgroup w (data_grp STATIC) (last source_ds) = (Inr (data_grp STATIC @ [last source_ds]), w1)"
    "only_groups_added w w1" "ds_items w1 source_ds = Inr ids"
    "\<not> match_datasets ids (get_sources b)"
    by (rule mismatchD)
  then show ?thesis
    by (simp add: add_static_data_def mismatch_rejected_def)
qed

lemma add_event_vlen_mismatch_rejected:
  assumes "ds_items w source_ds = Inr ids"
    and "base_ready w EVENT (last source_ds)"
    and "set (get_sources b) \<noteq> set ids"
    and "dialect w = VLEN"
  shows "mismatch_rejected w (add_event_vlen w source_ds b fixed)"
proof -
  from assms(2,1,3) obtain w1 where
    "require_subgroup w (data_grp EVENT) (last source_ds) = (Inr (data_grp EVENT @ [last source_ds]), w1)"
    "only_groups_added w w1" "ds_items w1 source_ds = Inr ids"
    "\<not> match_datasets ids (get_sources b)"
    by (rule mismatchD)
  then show ?thesis using assms(4)
    by (simp add: add_event_vlen_def mismatch_rejected_def)
qed

lemma add_nonuniform_vlen_mismatch_rejected:
  assumes "ds_items w source_ds = Inr ids"
    and "base_ready w NONUNIFORM (last source_ds)"
    and "set (get_sources b2) \<noteq> set ids"
    and "dialect w = VLEN"
  shows "mismatch_rejected w (add_nonuniform_vlen w source_ds b2 fixed)"
proof -
  from assms(2,1,3) obtain w1 where
    "require_subgroup w (data_grp NONUNIFORM) (last source_ds) = (Inr (data_grp NONUNIFORM @ [last source_ds]), w1)"
    "only_groups_added w w1" "ds_items w1 source_ds = Inr ids"
    "\<not> match_datasets ids (get_sources b2)"
    by (rule mismatchD)
  then show ?thesis using assms(4)
    by (simp add: add_nonuniform_vlen_def mismatch_rejected_def)
qed

lemma add_event_nan_mismatch_rejected:
  assumes "ds_items w source_ds = Inr ids"
    and "base_ready w EVENT (last source_ds)"
    and "set (get_sources b) \<noteq> set ids"
    and "dialect w = NANPADDED"
  shows "mismatch_rejected w (add_event_nan w source_ds b fixed)"
proof -
  from assms(2,1,3) obtain w1 where
    "require_subgroup w (data_grp EVENT) (last source_ds) = (Inr (data_grp EVENT @ [last source_ds]), w1)"
    "only_groups_added w w1" "ds_items w1 source_ds = Inr ids"
    "\<not> match_datasets ids (get_sources b)"
    by (rule mismatchD)
  then show ?thesis using assms(4)
    by (simp add: add_event_nan_def mismatch_rejected_def)
qed

lemma add_nonuniform_nan_mismatch_rejected:
  assumes "ds_items w source_ds = Inr ids"
    and "base_ready w NONUNIFORM (last source_ds)"
    and "set (get_sources b2) \<noteq> set ids"
    and "dialect w = NANPADDED"
  shows "mismatch_rejected w (add_nonuniform_nan w source_ds b2 fixed)"
proof -
  from assms(2,1,3) obtain w1 where
    "require_subgroup w (data_grp NONUNIFORM) (last source_ds) = (Inr (data_grp NONUNIFORM @ [last source_ds]), w1)"
    "only_groups_added w w1" "ds_items w1 source_ds = Inr ids"
    "\<not> match_datasets ids (get_sources b2)"
    by (rule mismatchD)
  then show ?thesis using assms(4)
    by (simp add: add_nonuniform_nan_def mismatch_rejected_def)
qed

section \<open>The shared time axis\<close>

lemma append_columns_other:
  "q \<noteq> p \<Longrightarrow> nodes (snd (append_columns w p n data)) q = nodes w q"
  by (auto simp: append_columns_def Let_def split: node.splits content.splits sum.splits)

text \<open>
  When the array exists, \<^verbatim>\<open>add_nonuniform_regular\<close> touches nothing but the array: the
  dataset of the sampling times under \<^verbatim>\<open>/map/time\<close> stays as it was.
\<close>

lemma add_nonuniform_regular_append_keeps_times:
  assumes "nodes w (data_grp NONUNIFORM @ [last source_ds, name b]) = Some n"
    and "nodes w (data_grp NONUNIFORM @ [last source_ds]) = Some g"
  shows "nodes (snd (add_nonuniform_regular w source_ds b fixed)) (time_dim @ [ts]) = nodes w (time_dim @ [ts])"
proof -
  let ?p = "(data_grp NONUNIFORM @ [last source_ds]) @ [name b]"
  obtain r w1 where rq: "require_subgroup w (data_grp NONUNIFORM) (last source_ds) = (r, w1)"
    by (cases "require_subgroup w (data_grp NONUNIFORM) (last source_ds)")
  from require_subgroup_cases [OF rq] assms(2)
  have w1: "w1 = w" and r: "(\<exists>e. r = Inl e) \<or> r = Inr (data_grp NONUNIFORM @ [last source_ds])"
    by auto
  have ne: "time_dim @ [ts] \<noteq> ?p"
    by (simp add: time_dim_def data_grp_def)
  have g: "h5_getitem w ?p = Inr n"
    using assms(1) by (simp add: h5_getitem_def)
  from r show ?thesis
  proof
    assume "\<exists>e. r = Inl e"
    then show ?thesis using rq w1 by (auto simp: add_nonuniform_regular_def)
  next
    assume "r = Inr (data_grp NONUNIFORM @ [last source_ds])"
    then show ?thesis
      using rq w1 g append_columns_other [OF ne, of w n]
      by (simp add: add_nonuniform_regular_def split: sum.splits)
  qed
qed

text \<open>
  Claim C3. After every successful call of \<^verbatim>\<open>add_nonuniform_regular\<close> the shared time
  axis is to be as long as the array has columns. The operation checks the length of
  the batch's time vector on every call, but writes the time vector only when it creates
  the array; on an append the new sampling times are dropped. Here two batches of two
  samples each are written: the array has four columns, the time axis two entries.
\<close>

theorem add_nonuniform_regular_append_drops_times:
  "fst (add_nonuniform_regular ex_vlen [''map'', ''nonuniform'', ''pop''] ex_batch_reg1 False)
     = Inr [''data'', ''nonuniform'', ''pop'', ''Vm'']
   \<and> fst (add_nonuniform_regular ex_regular1 [''map'', ''nonuniform'', ''pop''] ex_batch_reg2 False)
     = Inr [''data'', ''nonuniform'', ''pop'', ''Vm'']
   \<and> content_at ex_regular2 [''data'', ''nonuniform'', ''pop'', ''Vm'']
     = Some (Arr2 [[Val 1, Val 2, Val 5, Val 6], [Val 3, Val 4, Val 7, Val 8]])
   \<and> content_at ex_regular2 [''map'', ''time'', ''pop_Vm''] = Some (Arr1 [Val 0, Val 1])"
  by code_simp

section \<open>Declaring a source mapping\<close>

lemma link_map_model_missing_ancestor:
  assumes "mapds_idlist w mapds = Inr idlist" and "ancestor_missing w idlist"
  shows "link_map_model w mapds = (Inr (), w\<lparr>log := log w @ [KeyError_missing (ancestor_path w idlist)]\<rparr>)"
  using assms
  by (auto simp: link_map_model_def ancestor_missing_def ancestor_prefix_def ancestor_path_def
        h5_open_def h5_getitem_def Let_def split: sum.splits option.splits)

lemma ancestor_path_model: "\<exists>r. ancestor_path w idlist = ''model'' # r"
  by (simp add: ancestor_path_def modeltree_def)

lemma create_and_link_missing_ancestor:
  assumes "nodes w p = None" and "hd p = ''map''"
    and "c = Strs idlist \<or> c = SrcData (map (\<lambda>i. (i, None)) idlist)"
    and "ancestor_missing w idlist"
  shows "create_and_link w p c = (Inr p, declared_unlinked w p c idlist)"
proof -
  let ?w1 = "w\<lparr>nodes := (nodes w)(p \<mapsto> Dataset (new_dataset c None (Val 0)))\<rparr>"
  from ancestor_path_model [of w idlist] assms(2)
  have ne: "ancestor_path w idlist \<noteq> p" by auto
  have ap: "ancestor_path ?w1 idlist = ancestor_path w idlist"
    by (simp add: ancestor_path_def ancestor_prefix_def)
  have am: "ancestor_missing ?w1 idlist"
    using assms(4) ne by (simp add: ancestor_missing_def ap) (simp add: ancestor_prefix_def)
  have ml: "mapds_idlist ?w1 p = Inr idlist"
    using assms(3) by (auto simp: mapds_idlist_def new_dataset_def comp_def)
  show ?thesis
    using assms(1) link_map_model_missing_ancestor [OF ml am]
    by (simp add: create_and_link_def create_dataset_def declared_unlinked_def ap)
qed


lemma map_ready_base:
  "map_ready w stype \<Longrightarrow> mapping_base w stype = (Inr (mapping_grp stype), w)"
  by (auto simp: map_ready_def is_group_def mapping_base_def require_subgroup_def require_group_def
        h5_getitem_def mapping_grp_def split: option.splits node.splits)

lemma require_group_ancestor_missing:
  assumes "ancestor_missing w idlist" and "hd (base @ [nm]) = ''map''"
  shows "ancestor_missing (snd (require_group w base nm)) idlist"
    and "ancestor_path (snd (require_group w base nm)) idlist = ancestor_path w idlist"
    and "log (snd (require_group w base nm)) = log w"
proof -
  from ancestor_path_model [of w idlist] assms(2)
  have ne: "ancestor_path w idlist \<noteq> base @ [nm]" by auto
  have idp: "id_path_dict (snd (require_group w base nm)) = id_path_dict w"
    by (simp add: require_group_def split: option.splits node.splits)
  show ap: "ancestor_path (snd (require_group w base nm)) idlist = ancestor_path w idlist"
    by (simp add: ancestor_path_def ancestor_prefix_def idp)
  have nd: "nodes (snd (require_group w base nm)) (ancestor_path w idlist) = nodes w (ancestor_path w idlist)"
    using ne by (simp add: require_group_def split: option.splits node.splits)
  show "ancestor_missing (snd (require_group w base nm)) idlist"
    using assms(1) by (simp add: ancestor_missing_def ap nd idp) (simp add: ancestor_prefix_def idp)
  show "log (snd (require_group w base nm)) = log w"
    by (simp add: require_group_def split: option.splits node.splits)
qed

lemma require_group_result:
  "\<not> (case nodes w (base @ [nm]) of Some (Dataset _) \<Rightarrow> True | _ \<Rightarrow> False) \<Longrightarrow>
     require_group w base nm = (Inr (base @ [nm]), snd (require_group w base nm))
     \<and> dialect (snd (require_group w base nm)) = dialect w
     \<and> (\<forall>q. q \<noteq> base @ [nm] \<longrightarrow> nodes (snd (require_group w base nm)) q = nodes w q)"
  by (auto simp: require_group_def split: option.splits node.splits)

text \<open>
  Claim C8. When the sources of a mapping resolve in the model tree but the file has no
  object at the place of their closest common ancestor, \<^verbatim>\<open>_link_map_model\<close> does not
  raise: it returns with the store unchanged and the message of the \<^verbatim>\<open>KeyError\<close>
  printed. Every declaration then completes and returns the handle of its mapping
  dataset; all it leaves in the file is that dataset (and, for the declarations with a
  variable name, the group of the population).
\<close>

theorem missing_ancestor_is_logged:
  assumes am: "ancestor_missing w idlist"
  shows "(mapds_idlist w mapds = Inr idlist \<longrightarrow>
            link_map_model w mapds
              = (Inr (), w\<lparr>log := log w @ [KeyError_missing (ancestor_path w idlist)]\<rparr>))
       \<and> (idlist \<noteq> [] \<and> map_ready w UNIFORM \<and> nodes w (mapping_grp UNIFORM @ [nm]) = None \<longrightarrow>
            add_uniform_ds w nm idlist
              = (Inr (mapping_grp UNIFORM @ [nm]),
                 declared_unlinked w (mapping_grp UNIFORM @ [nm]) (Strs idlist) idlist))
       \<and> (idlist \<noteq> [] \<and> map_ready w STATIC \<and> nodes w (mapping_grp STATIC @ [nm]) = None \<longrightarrow>
            add_static_ds w nm idlist
              = (Inr (mapping_grp STATIC @ [nm]),
                 declared_unlinked w (mapping_grp STATIC @ [nm]) (Strs idlist) idlist))
       \<and> (idlist \<noteq> [] \<and> map_ready w NONUNIFORM \<and> nodes w (mapping_grp NONUNIFORM @ [nm]) = None
            \<and> dialect w \<noteq> ONED \<longrightarrow>
            add_nonuniform_ds w nm idlist
              = (Inr (mapping_grp NONUNIFORM @ [nm]),
                 declared_unlinked w (mapping_grp NONUNIFORM @ [nm]) (Strs idlist) idlist))
       \<and> (idlist \<noteq> [] \<and> map_ready w EVENT \<and> nodes w (mapping_grp EVENT @ [nm]) = None
            \<and> (dialect w = VLEN \<or> dialect w = NANPADDED) \<longrightarrow>
            add_event_ds w nm idlist
              = (Inr (mapping_grp EVENT @ [nm]),
                 declared_unlinked w (mapping_grp EVENT @ [nm]) (Strs idlist) idlist))
       \<and> (idlist \<noteq> [] \<and> map_ready w NONUNIFORM
            \<and> \<not> (case nodes w (mapping_grp NONUNIFORM @ [nm]) of Some (Dataset _) \<Rightarrow> True | _ \<Rightarrow> False)
            \<and> nodes w (mapping_grp NONUNIFORM @ [nm, varname]) = None \<and> dialect w = ONED \<longrightarrow>
            add_nonuniform_ds_1d w nm varname idlist
              = (Inr (mapping_grp NONUNIFORM @ [nm, varname]),
                 declared_unlinked (snd (require_group w (mapping_grp NONUNIFORM) nm))
                   (mapping_grp NONUNIFORM @ [nm, varname]) (SrcData (map (\<lambda>i. (i, None)) idlist)) idlist))
       \<and> (idlist \<noteq> [] \<and> map_ready w EVENT
            \<and> \<not> (case nodes w (mapping_grp EVENT @ [nm]) of Some (Dataset _) \<Rightarrow> True | _ \<Rightarrow> False)
            \<and> nodes w (mapping_grp EVENT @ [nm, varname]) = None
            \<and> (dialect w = ONED \<or> dialect w = NUREGULAR) \<longrightarrow>
            add_event_ds_1d w nm varname idlist
              = (Inr (mapping_grp EVENT @ [nm, varname]),
                 declared_unlinked (snd (require_group w (mapping_grp EVENT) nm))
                   (mapping_grp EVENT @ [nm, varname]) (SrcData (map (\<lambda>i. (i, None)) idlist)) idlist))"
proof (intro conjI impI)
  assume "mapds_idlist w mapds = Inr idlist"
  then show "link_map_model w mapds
      = (Inr (), w\<lparr>log := log w @ [KeyError_missing (ancestor_path w idlist)]\<rparr>)"
    using am by (rule link_map_model_missing_ancestor)
next
  assume a: "idlist \<noteq> [] \<and> map_ready w UNIFORM \<and> nodes w (mapping_grp UNIFORM @ [nm]) = None"
  then obtain g where "nodes w (mapping_grp UNIFORM) = Some (Group g)"
    by (auto simp: map_ready_def is_group_def split: option.splits node.splits)
  with a create_and_link_missing_ancestor [of w "mapping_grp UNIFORM @ [nm]" "Strs idlist" idlist] am
  show "add_uniform_ds w nm idlist
      = (Inr (mapping_grp UNIFORM @ [nm]), declared_unlinked w (mapping_grp UNIFORM @ [nm]) (Strs idlist) idlist)"
    by (simp add: add_uniform_ds_def h5_getitem_def mapping_grp_def)
next
  assume a: "idlist \<noteq> [] \<and> map_ready w STATIC \<and> nodes w (mapping_grp STATIC @ [nm]) = None"
  with create_and_link_missing_ancestor [of w "mapping_grp STATIC @ [nm]" "Strs idlist" idlist] am
    map_ready_base [of w STATIC]
  show "add_static_ds w nm idlist
      = (Inr (mapping_grp STATIC @ [nm]), declared_unlinked w (mapping_grp STATIC @ [nm]) (Strs idlist) idlist)"
    by (simp add: add_static_ds_def mapping_grp_def)
next
  assume a: "idlist \<noteq> [] \<and> map_ready w NONUNIFORM \<and> nodes w (mapping_grp NONUNIFORM @ [nm]) = None
            \<and> dialect w \<noteq> ONED"
  with create_and_link_missing_ancestor [of w "mapping_grp NONUNIFORM @ [nm]" "Strs idlist" idlist] am
    map_ready_base [of w NONUNIFORM]
  show "add_nonuniform_ds w nm idlist
      = (Inr (mapping_grp NONUNIFORM @ [nm]),
         declared_unlinked w (mapping_grp NONUNIFORM @ [nm]) (Strs idlist) idlist)"
    by (simp add: add_nonuniform_ds_def mapping_grp_def)
next
  assume a: "idlist \<noteq> [] \<and> map_ready w EVENT \<and> nodes w (mapping_grp EVENT @ [nm]) = None
            \<and> (dialect w = VLEN \<or> dialect w = NANPADDED)"
  with create_and_link_missing_ancestor [of w "mapping_grp EVENT @ [nm]" "Strs idlist" idlist] am
    map_ready_base [of w EVENT]
  show "add_event_ds w nm idlist
      = (Inr (mapping_grp EVENT @ [nm]), declared_unlinked w (mapping_grp EVENT @ [nm]) (Strs idlist) idlist)"
    by (auto simp: add_event_ds_def mapping_grp_def)
next
  let ?w1 = "snd (require_group w (mapping_grp NONUNIFORM) nm)"
  let ?p = "mapping_grp NONUNIFORM @ [nm, varname]"
  assume a: "idlist \<noteq> [] \<and> map_ready w NONUNIFORM
            \<and> \<not> (case nodes w (mapping_grp NONUNIFORM @ [nm]) of Some (Dataset _) \<Rightarrow> True | _ \<Rightarrow> False)
            \<and> nodes w ?p = None \<and> dialect w = ONED"
  from a require_group_result [of w "mapping_grp NONUNIFORM" nm]
  obtain w1 where rg: "require_group w (mapping_grp NONUNIFORM) nm = (Inr (mapping_grp NONUNIFORM @ [nm]), w1)"
    and none: "nodes w1 ?p = None"
    by (cases "require_group w (mapping_grp NONUNIFORM) nm") simp
  from require_group_ancestor_missing(1) [OF am, of "mapping_grp NONUNIFORM" nm] rg
  have am1: "ancestor_missing w1 idlist"
    by (simp add: mapping_grp_def)
  from create_and_link_missing_ancestor [of w1 ?p "SrcData (map (\<lambda>i. (i, None)) idlist)" idlist] none am1
  have "create_and_link w1 ?p (SrcData (map (\<lambda>i. (i, None)) idlist))
          = (Inr ?p, declared_unlinked w1 ?p (SrcData (map (\<lambda>i. (i, None)) idlist)) idlist)"
    by (simp add: mapping_grp_def)
  with a rg map_ready_base [of w NONUNIFORM]
  show "add_nonuniform_ds_1d w nm varname idlist
      = (Inr ?p, declared_unlinked ?w1 ?p (SrcData (map (\<lambda>i. (i, None)) idlist)) idlist)"
    by (simp add: add_nonuniform_ds_1d_def)
next
  let ?w1 = "snd (require_group w (mapping_grp EVENT) nm)"
  let ?p = "mapping_grp EVENT @ [nm, varname]"
  assume a: "idlist \<noteq> [] \<and> map_ready w EVENT
            \<and> \<not> (case nodes w (mapping_grp EVENT @ [nm]) of Some (Dataset _) \<Rightarrow> True | _ \<Rightarrow> False)
            \<and> nodes w ?p = None \<and> (dialect w = ONED \<or> dialect w = NUREGULAR)"
  from a require_group_result [of w "mapping_grp EVENT" nm]
  obtain w1 where rg: "require_group w (mapping_grp EVENT) nm = (Inr (mapping_grp EVENT @ [nm]), w1)"
    and none: "nodes w1 ?p = None"
    by (cases "require_group w (mapping_grp EVENT) nm") simp
  from require_group_ancestor_missing(1) [OF am, of "mapping_grp EVENT" nm] rg
  have am1: "ancestor_missing w1 idlist"
    by (simp add: mapping_grp_def)
  from create_and_link_missing_ancestor [of w1 ?p "SrcData (map (\<lambda>i. (i, None)) idlist)" idlist] none am1
  have "create_and_link w1 ?p (SrcData (map (\<lambda>i. (i, None)) idlist))
          = (Inr ?p, declared_unlinked w1 ?p (SrcData (map (\<lambda>i. (i, None)) idlist)) idlist)"
    by (simp add: mapping_grp_def)
  with a rg map_ready_base [of w EVENT]
  show "add_event_ds_1d w nm varname idlist
      = (Inr ?p, declared_unlinked ?w1 ?p (SrcData (map (\<lambda>i. (i, None)) idlist)) idlist)"
    by (auto simp: add_event_ds_1d_def)
qed

lemma ex_unwritten_facts:
  "ancestor_missing ex_unwritten [''a'', ''b'']"
  "map_ready ex_unwritten UNIFORM"
  "ancestor_path ex_unwritten [''a'', ''b''] = [''model'', ''modeltree'', ''A'']"
  by code_simp+

lemma ex_unwritten_free: "nodes ex_unwritten (mapping_grp UNIFORM @ [''pop'']) = None"
  by (simp add: ex_unwritten_def init_def init_groups_def mapping_grp_def UNIFORM_def data_grp_def
    SAMPLING_TYPES_def time_dim_def modeltree_def)

theorem missing_ancestor_is_logged_witness:
  "ancestor_missing ex_unwritten [''a'', ''b'']
   \<and> fst (add_uniform_ds ex_unwritten ''pop'' [''a'', ''b'']) = Inr [''map'', ''uniform'', ''pop'']
   \<and> log (snd (add_uniform_ds ex_unwritten ''pop'' [''a'', ''b'']))
       = [KeyError_missing [''model'', ''modeltree'', ''A'']]"
proof -
  have l: "log ex_unwritten = []" by (simp add: ex_unwritten_def init_def)
  from missing_ancestor_is_logged [OF ex_unwritten_facts(1), where nm = "''pop''"]
    ex_unwritten_facts ex_unwritten_free l
  show ?thesis
    by (simp add: declared_unlinked_def mapping_grp_def UNIFORM_def)
qed

lemma is_group_set_attr [simp]: "is_group (set_attr w p k v) q = is_group w q"
  by (simp add: is_group_def set_attr_def split: option.splits node.splits)






lemma require_subgroup_success:
  assumes "require_subgroup w base stype = (Inr g, w1)"
  shows "g = base @ [stype] \<and> is_group w1 base \<and> is_group w1 (base @ [stype]) \<and> dialect w1 = dialect w"
  using assms
  by (auto simp: require_subgroup_def require_group_def h5_getitem_def is_group_def
        split: option.splits node.splits sum.splits)

















section \<open>Linking a mapping to the model tree\<close>

text \<open>
  What \<^verbatim>\<open>_link_map_model\<close> does when the ancestor node is found: the reference to the
  mapping is put behind the node's \<^verbatim>\<open>map\<close> list, and the mapping's \<^verbatim>\<open>model\<close> attribute
  is set to the mapping's \<^verbatim>\<open>map\<close> list followed by the reference to the node. Nothing
  else in the file changes.
\<close>

lemma link_map_model_links:
  assumes "mapds_idlist w mapds = Inr idlist" and "dict_len (id_path_dict w) > 1"
    and "lookup_paths (id_path_dict w) idlist = Inr paths"
    and "h5_open w modeltree (drop (length ''/modeltree/'') (common_prefix paths)) = Inr (s, n)"
    and "attr_refs (node_attrs n) ''map'' = Inr refs"
    and "nodes w mapds = Some m" and "s \<noteq> mapds"
    and "attr_refs (node_attrs m) ''map'' = Inr refs2"
  shows "link_map_model w mapds
           = (Inr (), set_attr (set_attr w s ''map'' (ARefs (refs @ [mapds]))) mapds ''model''
                        (ARefs (refs2 @ [s])))"
  using assms
  by (simp add: link_map_model_def link_found_def h5_getitem_def)

lemma link_map_model_links_others:
  assumes "link_map_model w mapds
           = (Inr (), set_attr (set_attr w s ''map'' (ARefs (refs @ [mapds]))) mapds ''model''
                        (ARefs (refs2 @ [s])))"
    and "q \<noteq> s" and "q \<noteq> mapds"
  shows "nodes (snd (link_map_model w mapds)) q = nodes w q"
  using assms by simp

text \<open>
  A declaration links its new mapping as the claim says: the node \<open>A/B\<close> gets the
  reference to the mapping, the mapping the reference to \<open>A/B\<close>, and neither \<open>A\<close> nor
  \<open>A/B/C\<close> gets any.
\<close>

lemma declaration_links_example:
  "fst (add_uniform_ds ex_tree ''pop'' [''c'', ''d'']) = Inr [''map'', ''uniform'', ''pop'']
   \<and> attr_at ex_linked [''model'', ''modeltree'', ''A'', ''B''] ''map''
       = Some (ARefs [[''map'', ''uniform'', ''pop'']])
   \<and> attr_at ex_linked [''map'', ''uniform'', ''pop''] ''model''
       = Some (ARefs [[''model'', ''modeltree'', ''A'', ''B'']])
   \<and> attr_at ex_linked [''model'', ''modeltree'', ''A''] ''map'' = None
   \<and> attr_at ex_linked [''model'', ''modeltree'', ''A'', ''B'', ''C''] ''map'' = None"
  by code_simp


section \<open>Ragged arrays\<close>

lemma length_extend_rows [simp]: "length (extend_rows rs k xs) = length rs"
  by (induction xs arbitrary: rs k) simp_all

lemma nth_extend_rows:
  "i < length rs \<Longrightarrow> k + length xs \<le> length rs \<Longrightarrow>
     extend_rows rs k xs ! i = (if k \<le> i \<and> i < k + length xs then rs ! i @ xs ! (i - k) else rs ! i)"
proof (induction xs arbitrary: rs k)
  case Nil
  then show ?case by auto
next
  case (Cons x xs)
  from Cons.prems have "extend_rows (rs[k := rs ! k @ x]) (Suc k) xs ! i
      = (if Suc k \<le> i \<and> i < Suc k + length xs then rs[k := rs ! k @ x] ! i @ xs ! (i - Suc k)
         else rs[k := rs ! k @ x] ! i)"
    by (intro Cons.IH) simp_all
  moreover have "i - k = Suc (i - Suc k)" if "Suc k \<le> i"
    using that by simp
  ultimately show ?case
    using Cons.prems by (cases "i = k") (auto simp: nth_list_update)
qed

lemma extend_rows_all:
  assumes "length xs = length rs"
  shows "extend_rows rs 0 xs = map (\<lambda>(r, x). r @ x) (zip rs xs)"
proof (rule nth_equalityI)
  show "length (extend_rows rs 0 xs) = length (map (\<lambda>(r, x). r @ x) (zip rs xs))"
    using assms by simp
  fix i assume "i < length (extend_rows rs 0 xs)"
  then show "extend_rows rs 0 xs ! i = map (\<lambda>(r, x). r @ x) (zip rs xs) ! i"
    using assms by (simp add: nth_extend_rows)
qed

lemma same_except_refl [simp]: "same_except S w w"
  by (simp add: same_except_def)

lemma same_except_trans:
  "same_except S w w1 \<Longrightarrow> same_except T w1 w2 \<Longrightarrow> same_except (S \<union> T) w w2"
  by (simp add: same_except_def)

lemma same_except_mono: "same_except S w w' \<Longrightarrow> S \<subseteq> T \<Longrightarrow> same_except T w w'"
  by (auto simp: same_except_def)

lemma get_all_chunks:
  "match_datasets ids (get_sources b) \<Longrightarrow> get_all b ids = Inr (chunks b ids)"
  using get_all_match [of ids b] by (simp add: match_datasets_def chunks_def)

lemma get_all_Cons:
  "get_all b (s # ss) = Inr (x # xs) \<Longrightarrow> get_data b s = Inr x \<and> get_all b ss = Inr xs"
  by (auto split: sum.splits)

lemma get_all_length: "get_all b ss = Inr xs \<Longrightarrow> length xs = length ss"
  by (induction ss arbitrary: xs) (auto split: sum.splits)

lemma vlen_extend_ok:
  assumes "nodes w p = Some (Dataset d)" and "content d = VLenArr rs" and "i < length rs"
  shows "vlen_extend w p i x
           = (Inr (), w\<lparr>nodes := (nodes w)(p \<mapsto> Dataset (d\<lparr>content := VLenArr (rs[i := rs ! i @ x])\<rparr>))\<rparr>)"
  using assms by (simp add: vlen_extend_def)

lemma event_vlen_loop_ok:
  assumes "nodes w p = Some (Dataset d)" and "content d = VLenArr rs"
    and "k + length ss \<le> length rs" and "get_all b ss = Inr xs"
  shows "event_vlen_loop w p b (zip [k..<k + length ss] ss)
           = (Inr (), w\<lparr>nodes := (nodes w)(p \<mapsto> Dataset (d\<lparr>content := VLenArr (extend_rows rs k xs)\<rparr>))\<rparr>)"
  using assms
proof (induction ss arbitrary: w d rs k xs)
  case Nil
  then have "d\<lparr>content := VLenArr rs\<rparr> = d" by simp
  moreover from Nil have "(nodes w)(p \<mapsto> Dataset d) = nodes w"
    by (simp add: map_upd_triv)
  ultimately have "w\<lparr>nodes := (nodes w)(p \<mapsto> Dataset (d\<lparr>content := VLenArr rs\<rparr>))\<rparr> = w"
    by simp
  with Nil show ?case by (simp del: fun_upd_apply)
next
  case (Cons s ss)
  from Cons.prems(4) obtain x xs' where xs: "xs = x # xs'"
    by (cases xs) (auto split: sum.splits)
  with Cons.prems(4) have "get_data b s = Inr x \<and> get_all b ss = Inr xs'"
    by (intro get_all_Cons) simp
  then have gd: "get_data b s = Inr x" and ga: "get_all b ss = Inr xs'"
    by simp_all
  let ?d1 = "d\<lparr>content := VLenArr (rs[k := rs ! k @ x])\<rparr>"
  let ?w1 = "w\<lparr>nodes := (nodes w)(p \<mapsto> Dataset ?d1)\<rparr>"
  from Cons.prems have ve: "vlen_extend w p k x = (Inr (), ?w1)"
    by (intro vlen_extend_ok) simp_all
  have z: "zip [k..<k + length (s # ss)] (s # ss) = (k, s) # zip [Suc k..<Suc k + length ss] ss"
    by (subst upt_rec) simp
  have ih: "event_vlen_loop ?w1 p b (zip [Suc k..<Suc k + length ss] ss)
      = (Inr (), ?w1\<lparr>nodes := (nodes ?w1)(p \<mapsto> Dataset (?d1\<lparr>content := VLenArr (extend_rows (rs[k := rs ! k @ x]) (Suc k) xs')\<rparr>))\<rparr>)"
    using Cons.prems ga by (intro Cons.IH) simp_all
  have e1: "event_vlen_loop w p b ((k, s) # zip [Suc k..<Suc k + length ss] ss)
      = event_vlen_loop ?w1 p b (zip [Suc k..<Suc k + length ss] ss)"
    using gd ve by simp
  have e2: "?w1\<lparr>nodes := (nodes ?w1)(p \<mapsto> Dataset (?d1\<lparr>content := VLenArr (extend_rows (rs[k := rs ! k @ x]) (Suc k) xs')\<rparr>))\<rparr>
      = w\<lparr>nodes := (nodes w)(p \<mapsto> Dataset (d\<lparr>content := VLenArr (extend_rows rs k xs)\<rparr>))\<rparr>"
    by (simp add: xs)
  show ?case
    unfolding z e1 ih e2 ..
qed

lemma pop_ready_require:
  "pop_ready w stype popname \<Longrightarrow>
     require_subgroup w (data_grp stype) popname = (Inr (data_grp stype @ [popname]), w)"
  by (auto simp: pop_ready_def is_group_def require_subgroup_def require_group_def h5_getitem_def
        split: option.splits node.splits)

lemma content_atD:
  "content_at w p = Some c \<Longrightarrow> \<exists>d. nodes w p = Some (Dataset d) \<and> content d = c"
  by (auto simp: content_at_def split: option.splits node.splits)

lemma ds_items_content_at:
  "ds_items w source_ds = (case content_at w source_ds of Some (Strs ids) \<Rightarrow> Inr ids | _ \<Rightarrow> Inl H5_type)"
  by (simp add: ds_items_def content_at_def split: option.splits node.splits)

lemma is_group_upd_dataset [simp]: "is_group (upd_dataset w p f) q = is_group w q"
  by (simp add: is_group_def upd_dataset_def split: option.splits node.splits)

lemma is_group_scale_ops [simp]:
  "is_group (create_scale w s nm) q = is_group w q"
  "is_group (attach_scale w p ax s) q = is_group w q"
  "is_group (set_dim_label w p ax l) q = is_group w q"
  by (simp_all add: create_scale_def attach_scale_def set_dim_label_def)

lemma is_group_new_dataset [simp]:
  "is_group (w\<lparr>nodes := (nodes w)(p \<mapsto> Dataset d)\<rparr>) q = (q \<noteq> p \<and> is_group w q)"
  by (simp add: is_group_def)

lemma enumerate_py_zip: "enumerate_py xs = zip [0..<0 + length xs] xs"
  by (simp add: enumerate_py_def)

lemma add_event_vlen_append:
  assumes st: "vlen_state w source_ds EVENT ids (data_grp EVENT @ [last source_ds, name b]) rs"
    and m: "match_datasets ids (get_sources b)"
  shows "\<exists>w'. add_event_vlen w source_ds b fixed = (Inr (data_grp EVENT @ [last source_ds, name b]), w')
          \<and> vlen_state w' source_ds EVENT ids (data_grp EVENT @ [last source_ds, name b])
               (map (\<lambda>(r, x). r @ x) (zip rs (chunks b ids)))
          \<and> attrs_at w' (data_grp EVENT @ [last source_ds, name b])
               = attrs_at w (data_grp EVENT @ [last source_ds, name b])
          \<and> same_except {data_grp EVENT @ [last source_ds, name b]} w w'"
proof -
  let ?p = "data_grp EVENT @ [last source_ds, name b]"
  from st have dl: "dialect w = VLEN" and pr: "pop_ready w EVENT (last source_ds)"
    and di: "ds_items w source_ds = Inr ids" and ca: "content_at w ?p = Some (VLenArr rs)"
    and len: "length rs = length ids"
    by (simp_all add: vlen_state_def)
  from content_atD [OF ca] obtain d where nd: "nodes w ?p = Some (Dataset d)"
    and cd: "content d = VLenArr rs" by blast
  have ga: "get_all b ids = Inr (chunks b ids)" by (rule get_all_chunks [OF m])
  let ?w' = "w\<lparr>nodes := (nodes w)(?p \<mapsto> Dataset (d\<lparr>content := VLenArr (extend_rows rs 0 (chunks b ids))\<rparr>))\<rparr>"
  have lp: "event_vlen_loop w ?p b (enumerate_py ids) = (Inr (), ?w')"
    unfolding enumerate_py_zip using nd cd _ ga by (rule event_vlen_loop_ok) (simp add: len)
  have call: "add_event_vlen w source_ds b fixed = (Inr ?p, ?w')"
    using dl pop_ready_require [OF pr] di m nd lp
    by (simp add: add_event_vlen_def h5_getitem_def)
  have lc: "length (chunks b ids) = length rs" by (simp add: chunks_def len)
  have ne: "source_ds \<noteq> ?p"
    using di nd cd by (auto simp: ds_items_def)
  have pne: "data_grp EVENT \<noteq> ?p" "data_grp EVENT @ [last source_ds] \<noteq> ?p" by simp_all
  have st': "vlen_state ?w' source_ds EVENT ids ?p (map (\<lambda>(r, x). r @ x) (zip rs (chunks b ids)))"
    using dl pr di ne pne len lc
    by (simp add: vlen_state_def pop_ready_def ds_items_content_at extend_rows_all)
  have at: "attrs_at ?w' ?p = attrs_at w ?p"
    using nd by (simp add: attrs_at_def node_attrs_def)
  have se: "same_except {?p} w ?w'" by (simp add: same_except_def)
  from call st' at se show ?thesis by blast
qed


lemma content_at_other:
  "nodes w1 q = nodes w q \<Longrightarrow> content_at w1 q = content_at w q"
  by (simp add: content_at_def)















section \<open>Appending needs no metadata\<close>

lemma append_columns_ok:
  assumes "content d = Arr2 rs" and "can_grow d (ncols rs + ncols data)" and "length rs = length data"
  shows "append_columns w p (Dataset d) data
           = (Inr p, w\<lparr>nodes := (nodes w)(p \<mapsto> Dataset (d\<lparr>content := Arr2 (appended_rows d rs data)\<rparr>))\<rparr>)"
  using assms
  by (auto simp: append_columns_def resize_cols_def write_cols_def can_grow_def appended_rows_def
        Let_def zip_map1 case_prod_unfold comp_def split: option.splits)

lemma array_stateD:
  assumes "array_state w source_ds stype b d data"
  obtains ids od rs where
    "require_subgroup w (data_grp stype) (last source_ds) = (Inr (data_grp stype @ [last source_ds]), w)"
    "ds_items w source_ds = Inr ids" "match_datasets ids (get_sources b)"
    "get_all b ids = Inr od" "vstack od = Inr data"
    "h5_getitem w ((data_grp stype @ [last source_ds]) @ [name b]) = Inr (Dataset d)"
    "append_columns w ((data_grp stype @ [last source_ds]) @ [name b]) (Dataset d) data
       = (Inr (data_grp stype @ [last source_ds, name b]),
          w\<lparr>nodes := (nodes w)(data_grp stype @ [last source_ds, name b]
                \<mapsto> Dataset (d\<lparr>content := Arr2 (appended_rows d rs data)\<rparr>))\<rparr>)"
    "content d = Arr2 rs"
proof -
  from assms have pr: "pop_ready w stype (last source_ds)"
    and st: "stacked w source_ds b = Some data"
    and nd: "nodes w (data_grp stype @ [last source_ds, name b]) = Some (Dataset d)"
    by (simp_all add: array_state_def)
  from assms obtain ids where di: "ds_items w source_ds = Inr ids"
    and m: "match_datasets ids (get_sources b)"
    by (auto simp: array_state_def split: sum.splits)
  from assms obtain rs where c: "content d = Arr2 rs" and len: "length rs = length data"
    and cg: "can_grow d (ncols rs + ncols data)"
    by (auto simp: array_state_def split: content.splits)
  from st di obtain od where ga: "get_all b ids = Inr od" and vs: "vstack od = Inr data"
    by (rule stackedD)
  have gi: "h5_getitem w ((data_grp stype @ [last source_ds]) @ [name b]) = Inr (Dataset d)"
    using nd by (simp add: h5_getitem_def)
  from append_columns_ok [OF c cg len, of w "(data_grp stype @ [last source_ds]) @ [name b]"]
  show thesis
    by (intro that [OF pop_ready_require [OF pr] di m ga vs gi _ c]) simp
qed

lemma attrs_at_content_update:
  "nodes w p = Some (Dataset d) \<Longrightarrow>
     attrs_at (w\<lparr>nodes := (nodes w)(p \<mapsto> Dataset (d\<lparr>content := c\<rparr>))\<rparr>) p = attrs_at w p"
  by (simp add: attrs_at_def node_attrs_def)

text \<open>
  Claim C10. The metadata of a batch is looked at on the creation path only. When the
  target array exists, the append succeeds whatever the unit, the time unit and the
  sampling interval of the batch are (the statement puts arbitrary values in their
  place), no missing-metadata error is raised, and the attributes of the array are
  what they were. Shown for the operations that append columns to a 2-D array and for
  the ragged event array.
\<close>

theorem append_ignores_metadata:
  "(array_state w source_ds UNIFORM b d data \<longrightarrow>
      (\<exists>w'. add_uniform_data w source_ds (b\<lparr>unit := u, tunit := tu, dt := dv\<rparr>) tstart fixed
               = (Inr (data_grp UNIFORM @ [last source_ds, name b]), w')
           \<and> attrs_at w' (data_grp UNIFORM @ [last source_ds, name b])
               = attrs_at w (data_grp UNIFORM @ [last source_ds, name b])))
   \<and> (array_state w source_ds NONUNIFORM b d data \<and> ncols data = length (get_times b) \<longrightarrow>
      (\<exists>w'. add_nonuniform_regular w source_ds (b\<lparr>unit := u, tunit := tu, dt := dv\<rparr>) fixed
               = (Inr (data_grp NONUNIFORM @ [last source_ds, name b]), w')
           \<and> attrs_at w' (data_grp NONUNIFORM @ [last source_ds, name b])
               = attrs_at w (data_grp NONUNIFORM @ [last source_ds, name b])))
   \<and> (array_state w source_ds STATIC b d data \<longrightarrow>
      (\<exists>w'. add_static_data w source_ds (b\<lparr>unit := u, tunit := tu, dt := dv\<rparr>) fixed
               = (Inr (data_grp STATIC @ [last source_ds, name b]), w')
           \<and> attrs_at w' (data_grp STATIC @ [last source_ds, name b])
               = attrs_at w (data_grp STATIC @ [last source_ds, name b])))
   \<and> (vlen_state w source_ds EVENT ids (data_grp EVENT @ [last source_ds, name b]) rs
        \<and> match_datasets ids (get_sources b) \<longrightarrow>
      (\<exists>w'. add_event_vlen w source_ds (b\<lparr>unit := u, tunit := tu, dt := dv\<rparr>) fixed
               = (Inr (data_grp EVENT @ [last source_ds, name b]), w')
           \<and> attrs_at w' (data_grp EVENT @ [last source_ds, name b])
               = attrs_at w (data_grp EVENT @ [last source_ds, name b])))"
proof (intro conjI impI)
  let ?b = "b\<lparr>unit := u, tunit := tu, dt := dv\<rparr>"
  have ga: "get_all ?b xs = get_all b xs" for xs
    by (induction xs) (simp_all add: get_data_def cong: sum.case_cong)
  have same: "array_state w source_ds stype ?b d data" if "array_state w source_ds stype b d data" for stype
    using that by (simp add: array_state_def stacked_def get_sources_def ga cong: sum.case_cong)
  {
    assume "array_state w source_ds UNIFORM b d data"
    from same [OF this] show "\<exists>w'. add_uniform_data w source_ds ?b tstart fixed
               = (Inr (data_grp UNIFORM @ [last source_ds, name b]), w')
           \<and> attrs_at w' (data_grp UNIFORM @ [last source_ds, name b])
               = attrs_at w (data_grp UNIFORM @ [last source_ds, name b])"
      by (rule array_stateD)
        (auto simp: add_uniform_data_def h5_getitem_def attrs_at_def node_attrs_def split: option.splits)
  }
  {
    assume a: "array_state w source_ds NONUNIFORM b d data \<and> ncols data = length (get_times b)"
    then have t: "ncols data = length (get_times ?b)" by (simp add: get_times_def)
    from a have "array_state w source_ds NONUNIFORM b d data" ..
    from same [OF this] t show "\<exists>w'. add_nonuniform_regular w source_ds ?b fixed
               = (Inr (data_grp NONUNIFORM @ [last source_ds, name b]), w')
           \<and> attrs_at w' (data_grp NONUNIFORM @ [last source_ds, name b])
               = attrs_at w (data_grp NONUNIFORM @ [last source_ds, name b])"
      by - (erule array_stateD,
        auto simp: add_nonuniform_regular_def h5_getitem_def attrs_at_def node_attrs_def split: option.splits)
  }
  {
    assume "array_state w source_ds STATIC b d data"
    from same [OF this] show "\<exists>w'. add_static_data w source_ds ?b fixed
               = (Inr (data_grp STATIC @ [last source_ds, name b]), w')
           \<and> attrs_at w' (data_grp STATIC @ [last source_ds, name b])
               = attrs_at w (data_grp STATIC @ [last source_ds, name b])"
      by (rule array_stateD)
        (auto simp: add_static_data_def h5_getitem_def attrs_at_def node_attrs_def split: option.splits)
  }
  {
    assume a: "vlen_state w source_ds EVENT ids (data_grp EVENT @ [last source_ds, name b]) rs
        \<and> match_datasets ids (get_sources b)"
    then have "match_datasets ids (get_sources ?b)" by (simp add: get_sources_def)
    with a add_event_vlen_append [of w source_ds ids ?b rs fixed]
    show "\<exists>w'. add_event_vlen w source_ds ?b fixed
               = (Inr (data_grp EVENT @ [last source_ds, name b]), w')
           \<and> attrs_at w' (data_grp EVENT @ [last source_ds, name b])
               = attrs_at w (data_grp EVENT @ [last source_ds, name b])"
      by auto
  }
qed

lemma dataset_at_content:
  "content_at w p = Some c \<Longrightarrow> nodes w p = Some (Dataset (dataset_at w p)) \<and> content (dataset_at w p) = c"
  by (auto simp: content_at_def dataset_at_def split: option.splits node.splits)

lemma dataset_at_set_attr [simp]:
  "content (dataset_at (set_attr w p k v) q) = content (dataset_at w q)"
  "maxshape (dataset_at (set_attr w p k v) q) = maxshape (dataset_at w q)"
  "fillvalue (dataset_at (set_attr w p k v) q) = fillvalue (dataset_at w q)"
  by (simp_all add: dataset_at_def set_attr_def split: option.splits node.splits)

lemma dataset_at_upd_dataset:
  assumes "\<And>d. content (f d) = content d \<and> maxshape (f d) = maxshape d \<and> fillvalue (f d) = fillvalue d"
  shows "content (dataset_at (upd_dataset w p f) q) = content (dataset_at w q)"
    and "maxshape (dataset_at (upd_dataset w p f) q) = maxshape (dataset_at w q)"
    and "fillvalue (dataset_at (upd_dataset w p f) q) = fillvalue (dataset_at w q)"
  using assms by (simp_all add: dataset_at_def upd_dataset_def split: option.splits node.splits)

lemma dataset_at_scale_ops [simp]:
  "content (dataset_at (create_scale w s nm) q) = content (dataset_at w q)"
  "maxshape (dataset_at (create_scale w s nm) q) = maxshape (dataset_at w q)"
  "fillvalue (dataset_at (create_scale w s nm) q) = fillvalue (dataset_at w q)"
  "content (dataset_at (attach_scale w p ax s) q) = content (dataset_at w q)"
  "maxshape (dataset_at (attach_scale w p ax s) q) = maxshape (dataset_at w q)"
  "fillvalue (dataset_at (attach_scale w p ax s) q) = fillvalue (dataset_at w q)"
  "content (dataset_at (set_dim_label w p ax l) q) = content (dataset_at w q)"
  "maxshape (dataset_at (set_dim_label w p ax l) q) = maxshape (dataset_at w q)"
  "fillvalue (dataset_at (set_dim_label w p ax l) q) = fillvalue (dataset_at w q)"
  by (simp_all add: create_scale_def attach_scale_def set_dim_label_def dataset_at_upd_dataset)

lemma dataset_at_new [simp]:
  "dataset_at (w\<lparr>nodes := (nodes w)(p \<mapsto> Dataset d)\<rparr>) q = (if q = p then d else dataset_at w q)"
  by (simp add: dataset_at_def)

lemma is_group_content_at: "is_group w q \<Longrightarrow> content_at w q = None"
  by (auto simp: is_group_def content_at_def split: option.splits node.splits)

lemma add_uniform_data_create_state:
  assumes "nodes w (ugrp @ [name b]) = None"
    and "\<not> dt_le_zero (dt b)" and "unit b = Some u" and "tunit b = Some tu"
  shows "\<exists>w'. add_uniform_data_create w source_ds ugrp b data tstart fixed = (Inr (ugrp @ [name b]), w')
          \<and> content_at w' (ugrp @ [name b]) = Some (Arr2 data)
          \<and> maxshape (dataset_at w' (ugrp @ [name b]))
               = Some [Some (length data), if fixed then Some (ncols data) else None]
          \<and> (\<forall>q. q \<noteq> ugrp @ [name b] \<longrightarrow> content_at w' q = content_at w q)
          \<and> (\<forall>q. is_group w' q = (q \<noteq> ugrp @ [name b] \<and> is_group w q))
          \<and> dialect w' = dialect w"
  using assms
  by (simp add: add_uniform_data_create_def create_dataset_ok new_dataset_def Let_def)

text \<open>
  A first write with complete metadata creates the array and leaves the file in a state
  in which every later batch of the same name and shape can be appended, unless the
  array was created with \<^verbatim>\<open>fixed=True\<close>.
\<close>

lemma add_uniform_data_first:
  assumes fw: "first_write w source_ds UNIFORM b" and st: "stacked w source_ds b = Some data"
    and md: "\<not> dt_le_zero (dt b)" "unit b \<noteq> None" "tunit b \<noteq> None"
  shows "\<exists>w'. add_uniform_data w source_ds b tstart fixed
                 = (Inr (data_grp UNIFORM @ [last source_ds, name b]), w')
          \<and> content_at w' (data_grp UNIFORM @ [last source_ds, name b]) = Some (Arr2 data)
          \<and> (\<forall>b' data'. \<not> fixed \<and> name b' = name b \<and> stacked w source_ds b' = Some data'
                 \<and> (case ds_items w source_ds of Inr ids \<Rightarrow> match_datasets ids (get_sources b') | Inl _ \<Rightarrow> False)
               \<longrightarrow> array_state w' source_ds UNIFORM b'
                     (dataset_at w' (data_grp UNIFORM @ [last source_ds, name b])) data')"
proof -
  let ?g = "data_grp UNIFORM @ [last source_ds]"
  let ?p = "data_grp UNIFORM @ [last source_ds, name b]"
  from fw have br: "base_ready w UNIFORM (last source_ds)" by (simp add: first_write_def)
  from fw obtain w1 ids where
    rq: "require_subgroup w (data_grp UNIFORM) (last source_ds) = (Inr ?g, w1)"
    and og: "only_groups_added w w1"
    and di: "ds_items w source_ds = Inr ids" and di1: "ds_items w1 source_ds = Inr ids"
    and m: "match_datasets ids (get_sources b)"
    and gi: "h5_getitem w1 (data_grp UNIFORM @ [last source_ds] @ [name b])
       = Inl (KeyError_missing (data_grp UNIFORM @ [last source_ds] @ [name b]))"
    and n1: "nodes w1 (data_grp UNIFORM @ [last source_ds] @ [name b]) = None"
    and dl1: "dialect w1 = dialect w"
    by (rule first_writeD)
  from n1 have n1': "nodes w1 (?g @ [name b]) = None" by simp
  from require_subgroup_success [OF rq] have pr1: "pop_ready w1 UNIFORM (last source_ds)"
    by (simp add: pop_ready_def)
  from st di obtain od where ga: "get_all b ids = Inr od" and vs: "vstack od = Inr data"
    by (rule stackedD)
  from md obtain u tu where u: "unit b = Some u" "tunit b = Some tu" by auto
  from add_uniform_data_create_state [OF n1' md(1) u, of source_ds data tstart fixed]
  obtain w' where cr: "add_uniform_data_create w1 source_ds ?g b data tstart fixed = (Inr ?p, w')"
    and c: "content_at w' ?p = Some (Arr2 data)"
    and ms: "maxshape (dataset_at w' ?p) = Some [Some (length data), if fixed then Some (ncols data) else None]"
    and o: "\<forall>q. q \<noteq> ?p \<longrightarrow> content_at w' q = content_at w1 q"
    and g: "\<forall>q. is_group w' q = (q \<noteq> ?p \<and> is_group w1 q)"
    by auto
  have call: "add_uniform_data w source_ds b tstart fixed = (Inr ?p, w')"
    using rq di1 m ga vs gi cr by (simp add: add_uniform_data_def)
  have ne: "source_ds \<noteq> ?p" using di1 n1 by (auto simp: ds_items_def)
  have di': "ds_items w' source_ds = Inr ids"
    using di1 o ne by (simp add: ds_items_content_at)
  have pr': "pop_ready w' UNIFORM (last source_ds)"
    using pr1 g by (simp add: pop_ready_def)
  have "array_state w' source_ds UNIFORM b' (dataset_at w' ?p) data'"
    if a: "\<not> fixed" "name b' = name b" "stacked w source_ds b' = Some data'"
      "case ds_items w source_ds of Inr ids \<Rightarrow> match_datasets ids (get_sources b') | Inl _ \<Rightarrow> False"
    for b' data'
  proof -
    from a(3) di obtain od' where ga': "get_all b' ids = Inr od'" and vs': "vstack od' = Inr data'"
      by (rule stackedD)
    from vs' have d': "data' = od'" using vstack_cases [of od'] by simp
    from vs have d: "data = od" using vstack_cases [of od] by simp
    have len: "length data = length data'"
      using get_all_length [OF ga] get_all_length [OF ga'] d d' by simp
    have st': "stacked w' source_ds b' = Some data'"
      using a(3) di di' by (simp add: stacked_def)
    from dataset_at_content [OF c] a di di' pr' st' ms len show ?thesis
      by (simp add: array_state_def can_grow_def)
  qed
  with call c show ?thesis by blast
qed

lemma ex_uniform1_state:
  "array_state ex_uniform1 [''map'', ''uniform'', ''pop''] UNIFORM ex_batch_bare
     (dataset_at ex_uniform1 [''data'', ''uniform'', ''pop'', ''Vm''])
     [[Val 1, Val 2], [Val 3, Val 4]]"
proof -
  let ?ds = "[''map'', ''uniform'', ''pop'']"
  have p: "data_grp UNIFORM @ [last ?ds, name ex_batch_full] = [''data'', ''uniform'', ''pop'', ''Vm'']"
    by (simp add: data_grp_def UNIFORM_def ex_batch_full_def)
  have fw: "first_write ex_vlen ?ds UNIFORM ex_batch_full" by code_simp
  have st: "stacked ex_vlen ?ds ex_batch_full = Some [[Val 5, Val 6], [Val 7, Val 8]]" by code_simp
  have md: "\<not> dt_le_zero (dt ex_batch_full)" "unit ex_batch_full \<noteq> None" "tunit ex_batch_full \<noteq> None"
    by (simp_all add: ex_batch_full_def dt_le_zero_def)
  have b: "name ex_batch_bare = name ex_batch_full"
    by (simp add: ex_batch_bare_def ex_batch_full_def)
  have st': "stacked ex_vlen ?ds ex_batch_bare = Some [[Val 1, Val 2], [Val 3, Val 4]]" by code_simp
  have m: "case ds_items ex_vlen ?ds of Inr ids \<Rightarrow> match_datasets ids (get_sources ex_batch_bare)
             | Inl _ \<Rightarrow> False"
    by code_simp
  from add_uniform_data_first [OF fw st md, of 0 False] b st' m show ?thesis
    unfolding p by (auto simp: ex_uniform1_def)
qed

lemma ex_regular1_state:
  "array_state ex_regular1 [''map'', ''nonuniform'', ''pop''] NONUNIFORM ex_batch_bare
     (dataset_at ex_regular1 [''data'', ''nonuniform'', ''pop'', ''Vm''])
     [[Val 1, Val 2], [Val 3, Val 4]]
   \<and> ncols [[Val 1, Val 2], [Val 3, Val 4]] = length (get_times ex_batch_bare)"
proof -
  have c: "content_at ex_regular1 [''data'', ''nonuniform'', ''pop'', ''Vm'']
             = Some (Arr2 [[Val 1, Val 2], [Val 3, Val 4]])"
    by code_simp
  have 1: "pop_ready ex_regular1 NONUNIFORM ''pop''"
    "ds_items ex_regular1 [''map'', ''nonuniform'', ''pop''] = Inr [''a'', ''b'']"
    "match_datasets [''a'', ''b''] (get_sources ex_batch_bare)"
    "stacked ex_regular1 [''map'', ''nonuniform'', ''pop''] ex_batch_bare
       = Some [[Val 1, Val 2], [Val 3, Val 4]]"
    "can_grow (dataset_at ex_regular1 [''data'', ''nonuniform'', ''pop'', ''Vm''])
       (ncols [[Val 1, Val 2], [Val 3, Val 4]] + ncols [[Val 1, Val 2], [Val 3, Val 4]])"
    "ncols [[Val 1, Val 2], [Val 3, Val 4]] = length (get_times ex_batch_bare)"
    by code_simp+
  have n: "name ex_batch_bare = ''Vm''" by (simp add: ex_batch_bare_def)
  from dataset_at_content [OF c] 1 show ?thesis
    by (simp add: array_state_def n data_grp_def NONUNIFORM_def)
qed

lemma ex_static1_state:
  "array_state ex_static1 [''map'', ''static'', ''pop''] STATIC ex_batch_bare
     (dataset_at ex_static1 [''data'', ''static'', ''pop'', ''Vm''])
     [[Val 1, Val 2], [Val 3, Val 4]]"
proof -
  have c: "content_at ex_static1 [''data'', ''static'', ''pop'', ''Vm'']
             = Some (Arr2 [[Val 5, Val 6], [Val 7, Val 8]])"
    by code_simp
  have 1: "pop_ready ex_static1 STATIC ''pop''"
    "ds_items ex_static1 [''map'', ''static'', ''pop''] = Inr [''a'', ''b'']"
    "match_datasets [''a'', ''b''] (get_sources ex_batch_bare)"
    "stacked ex_static1 [''map'', ''static'', ''pop''] ex_batch_bare
       = Some [[Val 1, Val 2], [Val 3, Val 4]]"
    "can_grow (dataset_at ex_static1 [''data'', ''static'', ''pop'', ''Vm''])
       (ncols [[Val 5, Val 6], [Val 7, Val 8]] + ncols [[Val 1, Val 2], [Val 3, Val 4]])"
    by code_simp+
  have n: "name ex_batch_bare = ''Vm''" by (simp add: ex_batch_bare_def)
  from dataset_at_content [OF c] 1 show ?thesis
    by (simp add: array_state_def n data_grp_def STATIC_def)
qed

lemma ex_event1_state:
  "vlen_state ex_event1 [''map'', ''event'', ''pop''] EVENT [''a'', ''b'']
     (data_grp EVENT @ [last [''map'', ''event'', ''pop''], name ex_spikes2]) [[Val 1], [Val 2, Val 3]]
   \<and> match_datasets [''a'', ''b''] (get_sources ex_spikes2)"
  by code_simp

theorem append_ignores_metadata_witness:
  "(\<exists>w'. add_uniform_data ex_uniform1 [''map'', ''uniform'', ''pop'']
            (ex_batch_bare\<lparr>unit := None, tunit := None, dt := Some (- 1)\<rparr>) 0 False
          = (Inr [''data'', ''uniform'', ''pop'', ''Vm''], w')
        \<and> attrs_at w' [''data'', ''uniform'', ''pop'', ''Vm'']
          = attrs_at ex_uniform1 [''data'', ''uniform'', ''pop'', ''Vm''])
   \<and> (\<exists>w'. add_nonuniform_regular ex_regular1 [''map'', ''nonuniform'', ''pop'']
            (ex_batch_bare\<lparr>unit := None, tunit := None, dt := None\<rparr>) False
          = (Inr [''data'', ''nonuniform'', ''pop'', ''Vm''], w')
        \<and> attrs_at w' [''data'', ''nonuniform'', ''pop'', ''Vm'']
          = attrs_at ex_regular1 [''data'', ''nonuniform'', ''pop'', ''Vm''])
   \<and> (\<exists>w'. add_static_data ex_static1 [''map'', ''static'', ''pop'']
            (ex_batch_bare\<lparr>unit := None, tunit := None, dt := None\<rparr>) False
          = (Inr [''data'', ''static'', ''pop'', ''Vm''], w')
        \<and> attrs_at w' [''data'', ''static'', ''pop'', ''Vm'']
          = attrs_at ex_static1 [''data'', ''static'', ''pop'', ''Vm''])
   \<and> (\<exists>w'. add_event_vlen ex_event1 [''map'', ''event'', ''pop'']
            (ex_spikes2\<lparr>unit := None, tunit := None, dt := None\<rparr>) False
          = (Inr [''data'', ''event'', ''pop'', ''spike''], w')
        \<and> attrs_at w' [''data'', ''event'', ''pop'', ''spike'']
          = attrs_at ex_event1 [''data'', ''event'', ''pop'', ''spike''])"
proof -
  have p: "data_grp UNIFORM @ [last [''map'', ''uniform'', ''pop''], name ex_batch_bare]
             = [''data'', ''uniform'', ''pop'', ''Vm'']"
    "data_grp NONUNIFORM @ [last [''map'', ''nonuniform'', ''pop''], name ex_batch_bare]
             = [''data'', ''nonuniform'', ''pop'', ''Vm'']"
    "data_grp STATIC @ [last [''map'', ''static'', ''pop''], name ex_batch_bare]
             = [''data'', ''static'', ''pop'', ''Vm'']"
    "data_grp EVENT @ [last [''map'', ''event'', ''pop''], name ex_spikes2]
             = [''data'', ''event'', ''pop'', ''spike'']"
    by (simp_all add: data_grp_def UNIFORM_def NONUNIFORM_def STATIC_def EVENT_def
          ex_batch_bare_def ex_spikes2_def)
  note t = append_ignores_metadata
  from t [where w = ex_uniform1 and source_ds = "[''map'', ''uniform'', ''pop'']" and b = ex_batch_bare
        and d = "dataset_at ex_uniform1 [''data'', ''uniform'', ''pop'', ''Vm'']"
        and data = "[[Val 1, Val 2], [Val 3, Val 4]]" and u = None and tu = None and dv = "Some (- 1)"
        and tstart = 0 and fixed = False,
        THEN conjunct1, THEN mp, OF ex_uniform1_state]
  have 1: "\<exists>w'. add_uniform_data ex_uniform1 [''map'', ''uniform'', ''pop'']
            (ex_batch_bare\<lparr>unit := None, tunit := None, dt := Some (- 1)\<rparr>) 0 False
          = (Inr [''data'', ''uniform'', ''pop'', ''Vm''], w')
        \<and> attrs_at w' [''data'', ''uniform'', ''pop'', ''Vm'']
          = attrs_at ex_uniform1 [''data'', ''uniform'', ''pop'', ''Vm'']"
    unfolding p .
  from t [where w = ex_regular1 and source_ds = "[''map'', ''nonuniform'', ''pop'']" and b = ex_batch_bare
        and d = "dataset_at ex_regular1 [''data'', ''nonuniform'', ''pop'', ''Vm'']"
        and data = "[[Val 1, Val 2], [Val 3, Val 4]]" and u = None and tu = None and dv = None
        and fixed = False,
        THEN conjunct2, THEN conjunct1, THEN mp, OF ex_regular1_state]
  have 2: "\<exists>w'. add_nonuniform_regular ex_regular1 [''map'', ''nonuniform'', ''pop'']
            (ex_batch_bare\<lparr>unit := None, tunit := None, dt := None\<rparr>) False
          = (Inr [''data'', ''nonuniform'', ''pop'', ''Vm''], w')
        \<and> attrs_at w' [''data'', ''nonuniform'', ''pop'', ''Vm'']
          = attrs_at ex_regular1 [''data'', ''nonuniform'', ''pop'', ''Vm'']"
    unfolding p .
  from t [where w = ex_static1 and source_ds = "[''map'', ''static'', ''pop'']" and b = ex_batch_bare
        and d = "dataset_at ex_static1 [''data'', ''static'', ''pop'', ''Vm'']"
        and data = "[[Val 1, Val 2], [Val 3, Val 4]]" and u = None and tu = None and dv = None
        and fixed = False,
        THEN conjunct2, THEN conjunct2, THEN conjunct1, THEN mp, OF ex_static1_state]
  have 3: "\<exists>w'. add_static_data ex_static1 [''map'', ''static'', ''pop'']
            (ex_batch_bare\<lparr>unit := None, tunit := None, dt := None\<rparr>) False
          = (Inr [''data'', ''static'', ''pop'', ''Vm''], w')
        \<and> attrs_at w' [''data'', ''static'', ''pop'', ''Vm'']
          = attrs_at ex_static1 [''data'', ''static'', ''pop'', ''Vm'']"
    unfolding p .
  from t [where w = ex_event1 and source_ds = "[''map'', ''event'', ''pop'']" and b = ex_spikes2
        and ids = "[''a'', ''b'']" and rs = "[[Val 1], [Val 2, Val 3]]"
        and u = None and tu = None and dv = None and fixed = False,
        THEN conjunct2, THEN conjunct2, THEN conjunct2, THEN mp, OF ex_event1_state]
  have 4: "\<exists>w'. add_event_vlen ex_event1 [''map'', ''event'', ''pop'']
            (ex_spikes2\<lparr>unit := None, tunit := None, dt := None\<rparr>) False
          = (Inr [''data'', ''event'', ''pop'', ''spike''], w')
        \<and> attrs_at w' [''data'', ''event'', ''pop'', ''spike'']
          = attrs_at ex_event1 [''data'', ''event'', ''pop'', ''spike'']"
    unfolding p .
  from 1 2 3 4 show ?thesis by blast
qed

end
